theory Spec2Isabelle
  imports Main "HOL-Library.Sublist" "HOL-Library.Word"
begin

section \<open>Go library functions used by the SSO core\<close>

text \<open>
  Go strings are byte sequences; they are modelled as \<^typ>\<open>string\<close>, a list of 8-bit
  characters. The functions of package \<open>strings\<close> keep their Go names.
\<close>

definition HasPrefix :: "string \<Rightarrow> string \<Rightarrow> bool" where
  "HasPrefix s p = prefix p s"

definition HasSuffix :: "string \<Rightarrow> string \<Rightarrow> bool" where
  "HasSuffix s p = suffix p s"

definition Contains :: "string \<Rightarrow> string \<Rightarrow> bool" where
  "Contains s substr = sublist substr s"

text \<open>
  \<open>strings.Split(s, sep)\<close> for a separator of one byte (the only use is
  \<open>Split(ticket, "-")\<close>): the pieces between the separators, \<open>n + 1\<close> pieces for
  \<open>n\<close> occurrences, so the empty string gives one empty piece.
\<close>

fun Split :: "string \<Rightarrow> char \<Rightarrow> string list" where
  "Split [] sep = [[]]"
| "Split (c # cs) sep =
     (if c = sep then [] # Split cs sep
      else (case Split cs sep of [] \<Rightarrow> [[c]] | p # ps \<Rightarrow> (c # p) # ps))"

text \<open>
  \<open>strings.SplitN(s, sep, 2)\<close> for a separator of one byte: the string itself when the
  separator does not occur, otherwise the part before its first occurrence and the rest.
\<close>

definition SplitN2 :: "string \<Rightarrow> char \<Rightarrow> string list" where
  "SplitN2 s sep =
     (if sep \<in> set s
      then [takeWhile (\<lambda>c. c \<noteq> sep) s, tl (dropWhile (\<lambda>c. c \<noteq> sep) s)]
      else [s])"

text \<open>\<open>fmt.Sprintf("%d", n)\<close>: the decimal digits, with a minus sign below zero.\<close>

definition digit_char :: "nat \<Rightarrow> char" where
  "digit_char d = ''0123456789'' ! d"

function decimal :: "nat \<Rightarrow> string" where
  "decimal n = (if n < 10 then [digit_char n] else decimal (n div 10) @ [digit_char (n mod 10)])"
  by pat_completeness auto
termination
  by (relation "measure id") auto

declare decimal.simps [simp del]

definition Sprintf_d :: "int \<Rightarrow> string" where
  "Sprintf_d n = (if n < 0 then CHR ''-'' # decimal (nat (- n)) else decimal (nat n))"

text \<open>\<open>hex.EncodeToString\<close>: two lower-case hexadecimal digits for each byte.\<close>

definition hextable :: string where
  "hextable = ''0123456789abcdef''"

definition EncodeToString :: "8 word list \<Rightarrow> string" where
  "EncodeToString bs =
     concat (map (\<lambda>b. [hextable ! (unat b div 16), hextable ! (unat b mod 16)]) bs)"

section \<open>Errors, panics and instants\<close>

text \<open>
  An error value is either made by \<open>errors.New\<close> with its literal message, one of the
  errors of the database layer, or an error handed back by a collaborator that is not part
  of the SSO core (identified by its message). A panic is not an error value: it unwinds
  the call, so a function that can panic returns an \<open>outcome\<close>.
\<close>

datatype error =
    ErrorsNew string
  | ErrRecordNotFound
  | ErrDuplicatedKey
  | ErrMissingWhereClause
  | CollaboratorError string

datatype panic = NilPointerDereference | IndexOutOfRange

datatype 'a outcome = Returned 'a | Panicked panic

text \<open>
  Instants are whole seconds since the Unix epoch, so \<open>time.Now().Unix()\<close> is the
  instant itself and \<open>Add(10 * time.Second)\<close> adds 10. Every call reads the clock once;
  the reading is the argument \<open>now\<close>.
\<close>

type_synonym instant = int

text \<open>The two literal messages that are not ASCII, as the UTF-8 bytes of the source.\<close>

definition msg_app_unregistered :: string where
  "msg_app_unregistered =
     [CHR 0xE5, CHR 0xBA, CHR 0x94, CHR 0xE7, CHR 0x94, CHR 0xA8, CHR 0xE6, CHR 0x9C, CHR 0xAA,
      CHR 0xE6, CHR 0xB3, CHR 0xA8, CHR 0xE5, CHR 0x86, CHR 0x8C, CHR 0xE6, CHR 0x88, CHR 0x96,
      CHR 0xE9, CHR 0x85, CHR 0x8D, CHR 0xE7, CHR 0xBD, CHR 0xAE, CHR 0xE9, CHR 0x94, CHR 0x99,
      CHR 0xE8, CHR 0xAF, CHR 0xAF]"

definition msg_access_denied :: string where
  "msg_access_denied =
     [CHR 0xE6, CHR 0x82, CHR 0xA8, CHR 0xE6, CHR 0x97, CHR 0xA0, CHR 0xE6, CHR 0x9D, CHR 0x83,
      CHR 0xE8, CHR 0xAE, CHR 0xBF, CHR 0xE9, CHR 0x97, CHR 0xAE, CHR 0xE8, CHR 0xAF, CHR 0xA5,
      CHR 0xE5, CHR 0xBA, CHR 0x94, CHR 0xE7, CHR 0x94, CHR 0xA8]"

section \<open>The ticket tables and their data-access functions\<close>

text \<open>
  The three ticket models, with the fields the code reads and writes. \<open>ConsumedAt\<close> and
  \<open>Nonce\<close> are nullable (\<open>Nonce\<close> is assigned a pointer). The Nginx ticket has no
  \<open>consumed_at\<close> column.
\<close>

record SsoOAuthTicket =
  ID :: nat
  Code :: string
  RedirectURI :: string
  UserID :: nat
  ExpiresAt :: instant
  ConsumedAt :: "instant option"
  Nonce :: "string option"

record SsoNginxTicket =
  ID :: nat
  Token :: string
  UserID :: nat
  ExpiresAt :: instant

record SsoCASTicket =
  ID :: nat
  Ticket :: string
  Service :: string
  UserID :: nat
  ExpiresAt :: instant
  ConsumedAt :: "instant option"

text \<open>The database: one table per ticket model, rows in the order of their keys.\<close>

record database =
  sso_oauth_ticket :: "SsoOAuthTicket list"
  sso_nginx_ticket :: "SsoNginxTicket list"
  sso_cas_ticket :: "SsoCASTicket list"

text \<open>
  \<open>Where(...).First(&ticket)\<close>: the first row, in key order, that satisfies the
  condition, or the error \<open>ErrRecordNotFound\<close>.
\<close>

definition First :: "('r \<Rightarrow> bool) \<Rightarrow> 'r list \<Rightarrow> error + 'r" where
  "First cond rows = (case find cond rows of None \<Rightarrow> Inl ErrRecordNotFound | Some r \<Rightarrow> Inr r)"

text \<open>
  Modelled from the spec: the table declarations (package \<open>model\<close>) are not among the
  sources. The spec gives every ticket table a primary key and a \<^emph>\<open>unique\<close> ticket
  value, so \<open>Create\<close> assigns the next key and refuses a value that is already stored.
\<close>

definition CreateAuthorizeCode :: "SsoOAuthTicket \<Rightarrow> database \<Rightarrow> error option \<times> database" where
  "CreateAuthorizeCode data db =
     (if SsoOAuthTicket.Code data \<in> set (map SsoOAuthTicket.Code (sso_oauth_ticket db))
      then (Some ErrDuplicatedKey, db)
      else (None, db\<lparr>sso_oauth_ticket := sso_oauth_ticket db @
              [data\<lparr>SsoOAuthTicket.ID := Suc (length (sso_oauth_ticket db))\<rparr>]\<rparr>))"

definition CreateAuthorizeToken :: "SsoNginxTicket \<Rightarrow> database \<Rightarrow> error option \<times> database" where
  "CreateAuthorizeToken data db =
     (if SsoNginxTicket.Token data \<in> set (map SsoNginxTicket.Token (sso_nginx_ticket db))
      then (Some ErrDuplicatedKey, db)
      else (None, db\<lparr>sso_nginx_ticket := sso_nginx_ticket db @
              [data\<lparr>SsoNginxTicket.ID := Suc (length (sso_nginx_ticket db))\<rparr>]\<rparr>))"

definition CreateAuthorizeTicket :: "SsoCASTicket \<Rightarrow> database \<Rightarrow> error option \<times> database" where
  "CreateAuthorizeTicket data db =
     (if SsoCASTicket.Ticket data \<in> set (map SsoCASTicket.Ticket (sso_cas_ticket db))
      then (Some ErrDuplicatedKey, db)
      else (None, db\<lparr>sso_cas_ticket := sso_cas_ticket db @
              [data\<lparr>SsoCASTicket.ID := Suc (length (sso_cas_ticket db))\<rparr>]\<rparr>))"

text \<open>
  \<open>Model(&ticket).Update("consumed_at", now)\<close>: the update is keyed by the primary key
  of the model; with a zero key it has no condition and is refused
  (\<open>ErrMissingWhereClause\<close>). The column is also assigned in the model value.
\<close>

definition UpdateConsumedAtCode ::
  "SsoOAuthTicket \<Rightarrow> instant \<Rightarrow> SsoOAuthTicket list \<Rightarrow> error + SsoOAuthTicket list" where
  "UpdateConsumedAtCode ticket now rows =
     (if SsoOAuthTicket.ID ticket = 0 then Inl ErrMissingWhereClause
      else Inr (map (\<lambda>r. if SsoOAuthTicket.ID r = SsoOAuthTicket.ID ticket
                          then r\<lparr>SsoOAuthTicket.ConsumedAt := Some now\<rparr> else r) rows))"

definition UpdateConsumedAtTicket ::
  "SsoCASTicket \<Rightarrow> instant \<Rightarrow> SsoCASTicket list \<Rightarrow> error + SsoCASTicket list" where
  "UpdateConsumedAtTicket ticket now rows =
     (if SsoCASTicket.ID ticket = 0 then Inl ErrMissingWhereClause
      else Inr (map (\<lambda>r. if SsoCASTicket.ID r = SsoCASTicket.ID ticket
                          then r\<lparr>SsoCASTicket.ConsumedAt := Some now\<rparr> else r) rows))"

text \<open>\<open>GetAuthorizeCode\<close>: select the valid code, then stamp it as consumed.\<close>

definition GetAuthorizeCode ::
  "string \<Rightarrow> instant \<Rightarrow> database \<Rightarrow> (error + SsoOAuthTicket) \<times> database" where
  "GetAuthorizeCode code now db =
     (case First (\<lambda>r. SsoOAuthTicket.Code r = code \<and> SsoOAuthTicket.ExpiresAt r > now
                       \<and> SsoOAuthTicket.ConsumedAt r = None) (sso_oauth_ticket db) of
        Inl err \<Rightarrow> (Inl err, db)
      | Inr ticket \<Rightarrow>
          (case UpdateConsumedAtCode ticket now (sso_oauth_ticket db) of
             Inl err \<Rightarrow> (Inl err, db)
           | Inr rows \<Rightarrow>
               (Inr (ticket\<lparr>SsoOAuthTicket.ConsumedAt := Some now\<rparr>),
                db\<lparr>sso_oauth_ticket := rows\<rparr>)))"

text \<open>\<open>GetAuthorizeToken\<close>: select the valid token; nothing is written.\<close>

definition GetAuthorizeToken ::
  "string \<Rightarrow> instant \<Rightarrow> database \<Rightarrow> (error + SsoNginxTicket) \<times> database" where
  "GetAuthorizeToken token now db =
     (case First (\<lambda>r. SsoNginxTicket.Token r = token \<and> SsoNginxTicket.ExpiresAt r > now)
             (sso_nginx_ticket db) of
        Inl err \<Rightarrow> (Inl err, db)
      | Inr ticket \<Rightarrow> (Inr ticket, db))"

text \<open>\<open>GetAuthorizeTicket\<close>: select the valid service ticket, then stamp it as consumed.\<close>

definition GetAuthorizeTicket ::
  "string \<Rightarrow> instant \<Rightarrow> database \<Rightarrow> (error + SsoCASTicket) \<times> database" where
  "GetAuthorizeTicket st now db =
     (case First (\<lambda>r. SsoCASTicket.Ticket r = st \<and> SsoCASTicket.ExpiresAt r > now
                       \<and> SsoCASTicket.ConsumedAt r = None) (sso_cas_ticket db) of
        Inl err \<Rightarrow> (Inl err, db)
      | Inr ticket \<Rightarrow>
          (case UpdateConsumedAtTicket ticket now (sso_cas_ticket db) of
             Inl err \<Rightarrow> (Inl err, db)
           | Inr rows \<Rightarrow>
               (Inr (ticket\<lparr>SsoCASTicket.ConsumedAt := Some now\<rparr>),
                db\<lparr>sso_cas_ticket := rows\<rparr>)))"

text \<open>
  The state of the tables that \<open>Create\<close> establishes and every function here keeps:
  keys are not zero and ticket values are distinct.
\<close>

definition store_ok :: "database \<Rightarrow> bool" where
  "store_ok db =
     (distinct (map SsoOAuthTicket.Code (sso_oauth_ticket db))
      \<and> list_all (\<lambda>r. SsoOAuthTicket.ID r \<noteq> 0) (sso_oauth_ticket db)
      \<and> distinct (map SsoNginxTicket.Token (sso_nginx_ticket db))
      \<and> list_all (\<lambda>r. SsoNginxTicket.ID r \<noteq> 0) (sso_nginx_ticket db)
      \<and> distinct (map SsoCASTicket.Ticket (sso_cas_ticket db))
      \<and> list_all (\<lambda>r. SsoCASTicket.ID r \<noteq> 0) (sso_cas_ticket db))"

definition empty_database :: database where
  "empty_database = \<lparr>sso_oauth_ticket = [], sso_nginx_ticket = [], sso_cas_ticket = []\<rparr>"

section \<open>Collaborators of the SSO core\<close>

text \<open>
  The relying party (\<open>model.Site\<close>) and the subject (\<open>dao.UserInfoWithMenu\<close>,
  \<open>model.AuthUser\<close>), with the fields the SSO service reads.
\<close>

record Site =
  Name :: string
  AllOpen :: bool
  CallbackUrl :: string
  ClientId :: string
  ClientSecret :: string
  Certificate :: string
  DomainId :: string
  Address :: string
  RedirectUrl :: string
  IDPName :: string

record UserInfoWithMenu =
  ID :: nat
  Name :: string
  Username :: string
  Email :: string
  PhoneNumber :: string
  CtyunId :: string

record AuthUser =
  ID :: nat
  Username :: string

text \<open>The parsed \<open>AuthnRequest\<close>: \<open>Issuer.Value\<close> and the consumer service URL.\<close>

record AuthnRequest =
  Issuer_Value :: string
  AssertionConsumerServiceURL :: string

text \<open>The identity provider value of the SAML library, with the fields the service sets.\<close>

datatype NameIdFormat = NameIdFormatUnspecified | NameIdFormatEmailAddress

datatype AttributeFormat = AttributeFormatUnspecified

datatype Binding = HTTPPostBinding | HTTPRedirectBinding

record IdentityProvider =
  IsIdpInitiated :: bool
  Issuer :: string
  Audiences :: "string list"
  IDPKey :: string
  IDPCert :: string
  SPCert :: string
  NameIdentifier :: string
  NameIdentifierFormat :: NameIdFormat
  ACSLocation :: string
  ACSBinging :: Binding
  SessionIndex :: string
  Attributes :: "(string \<times> string \<times> AttributeFormat) list"
  AuthnRequestTTL :: int
  RelayState :: string

record SAMLResponse =
  URL :: string
  SAMLResponse :: string
  RelayState :: string

text \<open>
  What the service calls outside the sources at hand: the site and user tables
  (\<open>dao.Site\<close>, \<open>dao.User\<close>), the cipher and the random strings of \<open>utils\<close>, the token
  signer of \<open>middleware\<close>, the configured settings, HMAC-SHA256 and the SAML library.
  A Go function returning \<open>(value, error)\<close> where the caller may use the value whatever
  the error is returns a pair; a lookup returning \<open>(pointer, error)\<close> returns a sum, the
  pointer being nil with an error. The methods of the SAML library have a pointer
  receiver, so they hand back the identity provider value.
\<close>

record collaborators =
  GetOAuthSite :: "string \<Rightarrow> error + Site"
  GetCASSite :: "string \<Rightarrow> error + Site"
  GetSamlSite :: "string \<Rightarrow> error + Site"
  GetNginxSite :: "string \<Rightarrow> error + Site"
  IsUserInSite :: "nat \<Rightarrow> Site \<Rightarrow> bool"
  GetUserInfo :: "nat \<Rightarrow> error + UserInfoWithMenu"
  Encrypt :: "string \<Rightarrow> string \<times> error option"
  Decrypt :: "string \<Rightarrow> string \<times> error option"
  GenerateOAuthToken ::
    "nat \<Rightarrow> string \<Rightarrow> string \<Rightarrow> string \<Rightarrow> string \<Rightarrow> string \<Rightarrow> string \<times> error option"
  secret :: string
  externalUrl :: string
  privateKey :: string
  certificate :: string
  hmac_sha256 :: "string \<Rightarrow> string \<Rightarrow> 8 word list"
  ParseSAMLRequest :: "string \<Rightarrow> error + AuthnRequest"
  ValidateAuthnRequest ::
    "string \<Rightarrow> (string \<times> string) list \<Rightarrow> (string \<times> string) list \<Rightarrow> IdentityProvider
       \<Rightarrow> error option \<times> IdentityProvider"
  NewSignedLoginResponse :: "IdentityProvider \<Rightarrow> (string \<times> error option) \<times> IdentityProvider"
  base64_EncodeToString :: "string \<Rightarrow> string"
  samlPostFormTemplate :: "SAMLResponse \<Rightarrow> string \<times> error option"

section \<open>The SSO service\<close>

subsection \<open>Request and response values\<close>

record OAuthAuthorize =
  ResponseType :: string
  ClientId :: string
  RedirectURI :: string
  State :: string
  Scope :: string
  Nonce :: string

record CASAuthorize =
  Service :: string

record NginxAuthorize =
  CallbackURL :: string

record Token =
  GrantType :: string
  Code :: string
  ClientId :: string
  RedirectURI :: string
  ClientSecret :: string

record CASServiceValidate =
  Service :: string
  Ticket :: string

record SAMLRequest =
  SAMLRequest :: string
  RelayState :: string
  SigAlg :: string
  Signature :: string

record ResponseToken =
  IdToken :: string
  AccessToken :: string
  TokenType :: string
  ExpiresIn :: int
  RefreshToken :: string
  Scope :: string

record Attributes =
  Id :: nat
  Name :: string
  Username :: string
  Email :: string
  PhoneNumber :: string

record AuthenticationSuccess =
  User :: string
  Attributes :: Attributes

record CASServiceResponse =
  Xmlns :: string
  AuthenticationSuccess :: AuthenticationSuccess

text \<open>The parameter bag of \<open>Login\<close>: what the getters of \<open>AuthorizeParam\<close> return.\<close>

record AuthorizeParam =
  GetResponseType :: string
  GetClientId :: string
  GetRedirectURI :: string
  GetScope :: string
  GetState :: string
  GetNonce :: string
  GetService :: string
  GetSAMLRequest :: string
  GetRelayState :: string
  GetSigAlg :: string
  GetSignature :: string
  GetNginxRedirectURI :: string

subsection \<open>The four authorize engines\<close>

text \<open>
  Every engine returns \<open>(result, siteName, err)\<close> and the database it leaves. The random
  string of \<open>utils.GenerateRandomString(32)\<close> is the argument \<open>str\<close>.
\<close>

definition GetNginxAuthorize ::
  "collaborators \<Rightarrow> NginxAuthorize \<Rightarrow> nat \<Rightarrow> string \<Rightarrow> instant \<Rightarrow> database
     \<Rightarrow> (string \<times> string \<times> error option) \<times> database" where
  "GetNginxAuthorize c data userId str now db =
     (case GetNginxSite c (CallbackURL data) of
        Inl _ \<Rightarrow> (('''', '''', Some (ErrorsNew msg_app_unregistered)), db)
      | Inr site \<Rightarrow>
          if \<not> AllOpen site \<and> \<not> IsUserInSite c userId site
          then (('''', Site.Name site, Some (ErrorsNew msg_access_denied)), db)
          else
            let code = fst (Encrypt c str);
                ticket = \<lparr>SsoNginxTicket.ID = 0, SsoNginxTicket.Token = str,
                          SsoNginxTicket.UserID = userId,
                          SsoNginxTicket.ExpiresAt = now + 12 * 3600\<rparr>
            in (case CreateAuthorizeToken ticket db of
                  (Some err, db') \<Rightarrow> (('''', '''', Some err), db')
                | (None, db') \<Rightarrow>
                    ((CallbackUrl site @ ''?token='' @ code, Site.Name site, None), db')))"

definition GetCASAuthorize ::
  "collaborators \<Rightarrow> CASAuthorize \<Rightarrow> nat \<Rightarrow> string \<Rightarrow> instant \<Rightarrow> database
     \<Rightarrow> (string \<times> string \<times> error option) \<times> database" where
  "GetCASAuthorize c data userId username now db =
     (case GetCASSite c (CASAuthorize.Service data) of
        Inl _ \<Rightarrow> (('''', '''', Some (ErrorsNew msg_app_unregistered)), db)
      | Inr site \<Rightarrow>
          if \<not> AllOpen site \<and> \<not> IsUserInSite c userId site
          then (('''', Site.Name site, Some (ErrorsNew msg_access_denied)), db)
          else
            let st = ''ST-'' @ Sprintf_d now @ ''-'' @ username;
                signature = EncodeToString (hmac_sha256 c (secret c) st);
                st = st @ ''-'' @ signature;
                ticket = \<lparr>SsoCASTicket.ID = 0, SsoCASTicket.Ticket = st,
                          SsoCASTicket.Service = CallbackUrl site,
                          SsoCASTicket.UserID = userId,
                          SsoCASTicket.ExpiresAt = now + 10,
                          SsoCASTicket.ConsumedAt = None\<rparr>
            in (case CreateAuthorizeTicket ticket db of
                  (Some err, db') \<Rightarrow> (('''', Site.Name site, Some err), db')
                | (None, db') \<Rightarrow>
                    let separator = (if Contains (CallbackUrl site) ''?'' then ''&'' else ''?'')
                    in ((CallbackUrl site @ separator @ ''ticket='' @ st, Site.Name site, None),
                        db')))"

definition GetOAuthAuthorize ::
  "collaborators \<Rightarrow> OAuthAuthorize \<Rightarrow> nat \<Rightarrow> string \<Rightarrow> instant \<Rightarrow> database
     \<Rightarrow> (string \<times> string \<times> error option) \<times> database" where
  "GetOAuthAuthorize c data userId str now db =
     (case GetOAuthSite c (OAuthAuthorize.ClientId data) of
        Inl _ \<Rightarrow> (('''', '''', Some (ErrorsNew msg_app_unregistered)), db)
      | Inr site \<Rightarrow>
          if \<not> AllOpen site \<and> \<not> IsUserInSite c userId site
          then (('''', Site.Name site, Some (ErrorsNew msg_access_denied)), db)
          else
            (case Encrypt c str of
               (code, Some err) \<Rightarrow> (('''', Site.Name site, Some err), db)
             | (code, None) \<Rightarrow>
                 let ticket = \<lparr>SsoOAuthTicket.ID = 0, SsoOAuthTicket.Code = str,
                               SsoOAuthTicket.RedirectURI = CallbackUrl site,
                               SsoOAuthTicket.UserID = userId,
                               SsoOAuthTicket.ExpiresAt = now + 10,
                               SsoOAuthTicket.ConsumedAt = None,
                               SsoOAuthTicket.Nonce = Some (OAuthAuthorize.Nonce data)\<rparr>
                 in (case CreateAuthorizeCode ticket db of
                       (Some err, db') \<Rightarrow> (('''', Site.Name site, Some err), db')
                     | (None, db') \<Rightarrow>
                         let separator =
                               (if Contains (CallbackUrl site) ''?'' then ''&'' else ''?'')
                         in ((CallbackUrl site @ separator @ ''code='' @ code @ ''&state=''
                                @ State data, Site.Name site, None), db'))))"

text \<open>\<open>GetSampleAuthnRequest\<close>: the four values of the request as URL values.\<close>

definition GetSampleAuthnRequest :: "SAMLRequest \<Rightarrow> (string \<times> string) list" where
  "GetSampleAuthnRequest samlRequest =
     [(''RelayState'', SAMLRequest.RelayState samlRequest),
      (''SAMLRequest'', SAMLRequest.SAMLRequest samlRequest),
      (''sigAlg'', SigAlg samlRequest),
      (''signature'', Signature samlRequest)]"

definition AddAttribute ::
  "string \<Rightarrow> string \<Rightarrow> AttributeFormat \<Rightarrow> IdentityProvider \<Rightarrow> IdentityProvider" where
  "AddAttribute name v format idp =
     idp\<lparr>IdentityProvider.Attributes := IdentityProvider.Attributes idp @ [(name, v, format)]\<rparr>"

text \<open>
  The identity provider value that \<open>GetSPAuthorize\<close> configures before it validates the
  request: the struct literal, then the vendor settings in the order of the source
  (Aliyun, the generic attributes, AWS, Huawei Cloud, CTYun), then the request lifetime.
\<close>

definition GetSPAuthorize_idp ::
  "collaborators \<Rightarrow> AuthnRequest \<Rightarrow> Site \<Rightarrow> UserInfoWithMenu \<Rightarrow> string \<Rightarrow> IdentityProvider" where
  "GetSPAuthorize_idp c requestData site userinfo uuid =
     (let SPCert0 =
            (if \<not> HasPrefix (Certificate site) ''-----BEGIN CERTIFICATE-----''
                \<and> \<not> HasSuffix (Certificate site) ''-----END CERTIFICATE-----''
             then ''-----BEGIN CERTIFICATE-----'' @ [CHR 0x0A] @ Certificate site @ [CHR 0x0A]
                    @ ''-----END CERTIFICATE-----'' @ [CHR 0x0A]
             else Certificate site);
          idp = \<lparr>IsIdpInitiated = False,
                  Issuer = externalUrl c,
                  Audiences = [Issuer_Value requestData],
                  IDPKey = privateKey c,
                  IDPCert = certificate c,
                  SPCert = SPCert0,
                  NameIdentifier = UserInfoWithMenu.Username userinfo,
                  NameIdentifierFormat = NameIdFormatUnspecified,
                  ACSLocation = AssertionConsumerServiceURL requestData,
                  ACSBinging = HTTPPostBinding,
                  SessionIndex = uuid,
                  IdentityProvider.Attributes = [],
                  AuthnRequestTTL = 0,
                  IdentityProvider.RelayState = ''''\<rparr>;
          idp = (if HasPrefix (Issuer_Value requestData) ''https://signin.aliyun.com''
                 then idp\<lparr>NameIdentifier :=
                            UserInfoWithMenu.Username userinfo @ ''@'' @ DomainId site\<rparr>
                 else idp);
          idp = AddAttribute ''name'' (UserInfoWithMenu.Name userinfo)
                  AttributeFormatUnspecified idp;
          idp = AddAttribute ''username'' (UserInfoWithMenu.Username userinfo)
                  AttributeFormatUnspecified idp;
          idp = AddAttribute ''email'' (UserInfoWithMenu.Email userinfo)
                  AttributeFormatUnspecified idp;
          idp = AddAttribute ''phone_number'' (UserInfoWithMenu.PhoneNumber userinfo)
                  AttributeFormatUnspecified idp;
          idp = (if Contains (Address site) ''awsapps''
                 then AddAttribute ''username'' (UserInfoWithMenu.Email userinfo)
                        AttributeFormatUnspecified
                        (idp\<lparr>NameIdentifierFormat := NameIdFormatEmailAddress,
                              NameIdentifier := UserInfoWithMenu.Email userinfo\<rparr>)
                 else idp);
          idp = AddAttribute ''IAM_SAML_Attributes_xUserId'' (UserInfoWithMenu.Username userinfo)
                  AttributeFormatUnspecified idp;
          idp = AddAttribute ''IAM_SAML_Attributes_redirect_url'' (RedirectUrl site)
                  AttributeFormatUnspecified idp;
          idp = AddAttribute ''IAM_SAML_Attributes_domain_id'' (DomainId site)
                  AttributeFormatUnspecified idp;
          idp = AddAttribute ''IAM_SAML_Attributes_idp_id'' (IDPName site)
                  AttributeFormatUnspecified idp;
          idp = AddAttribute ''nickName'' (UserInfoWithMenu.Name userinfo)
                  AttributeFormatUnspecified idp;
          idp = AddAttribute ''accountId'' (DomainId site) AttributeFormatUnspecified idp;
          idp = AddAttribute ''userId'' (CtyunId userinfo) AttributeFormatUnspecified idp;
          idp = AddAttribute ''idpId'' (DomainId site) AttributeFormatUnspecified idp
      in idp\<lparr>AuthnRequestTTL := 10 * 60\<rparr>)"

text \<open>
  \<open>GetSPAuthorize\<close>, from the signing on: the response is signed from the identity
  provider value as the validation leaves it, and rendered into the posting form.
\<close>

definition GetSPAuthorize_respond ::
  "collaborators \<Rightarrow> Site \<Rightarrow> IdentityProvider \<Rightarrow> string \<times> string \<times> error option" where
  "GetSPAuthorize_respond c site idp =
     (case NewSignedLoginResponse c idp of
        ((signedXML, Some err), idp') \<Rightarrow> ('''', Site.Name site, Some err)
      | ((signedXML, None), idp') \<Rightarrow>
          let htmlData = \<lparr>URL = ACSLocation idp',
                           SAMLResponse.SAMLResponse = base64_EncodeToString c signedXML,
                           SAMLResponse.RelayState = IdentityProvider.RelayState idp'\<rparr>
          in (case samlPostFormTemplate c htmlData of
                (b, Some err) \<Rightarrow> ('''', Site.Name site, Some err)
              | (b, None) \<Rightarrow> (b, Site.Name site, None)))"

text \<open>
  \<open>GetSPAuthorize\<close>: parse the request, resolve the site, check access, load the user,
  configure the identity provider, validate the request as GET and, failing that, as
  POST. The engine writes no ticket; \<open>uuid\<close> is the fresh session index.
\<close>

definition GetSPAuthorize ::
  "collaborators \<Rightarrow> SAMLRequest \<Rightarrow> nat \<Rightarrow> string \<Rightarrow> string \<times> string \<times> error option" where
  "GetSPAuthorize c samlRequest userId uuid =
     (case ParseSAMLRequest c (SAMLRequest.SAMLRequest samlRequest) of
        Inl err \<Rightarrow> ('''', '''', Some err)
      | Inr requestData \<Rightarrow>
          (case GetSamlSite c (Issuer_Value requestData) of
             Inl _ \<Rightarrow> ('''', '''', Some (ErrorsNew msg_app_unregistered))
           | Inr site \<Rightarrow>
               if \<not> AllOpen site \<and> \<not> IsUserInSite c userId site
               then ('''', Site.Name site, Some (ErrorsNew msg_access_denied))
               else
                 (case GetUserInfo c userId of
                    Inl err \<Rightarrow> ('''', Site.Name site, Some err)
                  | Inr userinfo \<Rightarrow>
                      let idp = GetSPAuthorize_idp c requestData site userinfo uuid
                      in (case ValidateAuthnRequest c ''GET''
                                 (GetSampleAuthnRequest samlRequest) [] idp of
                            (None, idp1) \<Rightarrow> GetSPAuthorize_respond c site idp1
                          | (Some _, idp1) \<Rightarrow>
                              (case ValidateAuthnRequest c ''POST'' []
                                      (GetSampleAuthnRequest samlRequest) idp1 of
                                 (Some err, idp2) \<Rightarrow> ('''', Site.Name site, Some err)
                               | (None, idp2) \<Rightarrow> GetSPAuthorize_respond c site idp2)))))"

subsection \<open>CAS ticket validation and the OAuth token endpoint\<close>

text \<open>
  \<open>ServiceValidate\<close>: the site must exist; the ticket is fetched and consumed; it must
  split on \<open>-\<close> into exactly four parts, the fourth being the signature of the first
  three. \<open>hmac.Equal\<close> is equality, computed in constant time.
\<close>

definition ServiceValidate ::
  "collaborators \<Rightarrow> CASServiceValidate \<Rightarrow> instant \<Rightarrow> database
     \<Rightarrow> (error + CASServiceResponse) \<times> database" where
  "ServiceValidate c param now db =
     (case GetCASSite c (CASServiceValidate.Service param) of
        Inl _ \<Rightarrow> (Inl (ErrorsNew ''service string is invalid''), db)
      | Inr _ \<Rightarrow>
          (case GetAuthorizeTicket (CASServiceValidate.Ticket param) now db of
             (Inl _, db') \<Rightarrow> (Inl (ErrorsNew ''ticket string is invalid''), db')
           | (Inr ticketInfo, db') \<Rightarrow>
               let parts = Split (CASServiceValidate.Ticket param) CHR ''-''
               in if length parts \<noteq> 4
                  then (Inl (ErrorsNew ''ticket string is invalid''), db')
                  else
                    let ticket = parts ! 0 @ ''-'' @ parts ! 1 @ ''-'' @ parts ! 2;
                        signature = parts ! 3;
                        newSignature = EncodeToString (hmac_sha256 c (secret c) ticket)
                    in if newSignature \<noteq> signature
                       then (Inl (ErrorsNew ''ticket string is invalid''), db')
                       else
                         (case GetUserInfo c (SsoCASTicket.UserID ticketInfo) of
                            Inl err \<Rightarrow> (Inl err, db')
                          | Inr user \<Rightarrow>
                              (Inr \<lparr>Xmlns = ''http://www.yale.edu/tp/cas'',
                                    CASServiceResponse.AuthenticationSuccess =
                                      \<lparr>User = UserInfoWithMenu.Username user,
                                       AuthenticationSuccess.Attributes =
                                         \<lparr>Id = UserInfoWithMenu.ID user,
                                          Attributes.Name = UserInfoWithMenu.Name user,
                                          Attributes.Username = UserInfoWithMenu.Username user,
                                          Attributes.Email = UserInfoWithMenu.Email user,
                                          Attributes.PhoneNumber =
                                            UserInfoWithMenu.PhoneNumber user\<rparr>\<rparr>\<rparr>,
                               db'))))"

text \<open>
  \<open>GetToken\<close>: the error of \<open>Decrypt\<close> is dropped and the error of the user lookup is
  overwritten by the next assignment, so the user pointer is dereferenced unchecked; the
  arguments of \<open>GenerateOAuthToken\<close> are evaluated from the left, \<open>user.ID\<close> first and
  \<open>*ticket.Nonce\<close> last. The last statement returns the token with the nil error.
\<close>

definition GetToken ::
  "collaborators \<Rightarrow> Token \<Rightarrow> instant \<Rightarrow> database
     \<Rightarrow> (ResponseToken option \<times> error option) outcome \<times> database" where
  "GetToken c param now db =
     (case GetOAuthSite c (Token.ClientId param) of
        Inl _ \<Rightarrow> (Returned (None, Some (ErrorsNew ''client_id string is invalid'')), db)
      | Inr site \<Rightarrow>
          if Site.ClientSecret site \<noteq> Token.ClientSecret param
          then (Returned (None, Some (ErrorsNew ''client_secret string is invalid'')), db)
          else
            let code = fst (Decrypt c (Token.Code param))
            in (case GetAuthorizeCode code now db of
                  (Inl _, db') \<Rightarrow>
                    (Returned (None, Some (ErrorsNew ''code string is invalid'')), db')
                | (Inr ticket, db') \<Rightarrow>
                    (case GetUserInfo c (SsoOAuthTicket.UserID ticket) of
                       Inl _ \<Rightarrow> (Panicked NilPointerDereference, db')
                     | Inr user \<Rightarrow>
                         (case SsoOAuthTicket.Nonce ticket of
                            None \<Rightarrow> (Panicked NilPointerDereference, db')
                          | Some nonce \<Rightarrow>
                              (case GenerateOAuthToken c (UserInfoWithMenu.ID user)
                                      (UserInfoWithMenu.Name user)
                                      (UserInfoWithMenu.Username user)
                                      (Site.ClientId site) ''readwrite'' nonce of
                                 (idToken, Some err) \<Rightarrow> (Returned (None, Some err), db')
                               | (idToken, None) \<Rightarrow>
                                   (Returned
                                      (Some \<lparr>IdToken = idToken,
                                             AccessToken = idToken,
                                             TokenType = ''bearer'',
                                             ExpiresIn = 3600,
                                             RefreshToken = '''',
                                             ResponseToken.Scope = ''openid''\<rparr>,
                                       None),
                                    db'))))))"

subsection \<open>The protocol dispatcher\<close>

text \<open>
  \<open>Login\<close>: the first branch whose parameters are present runs its engine; on an error
  the result is empty and the site name is kept. With no branch the result is empty.
\<close>

definition Login ::
  "collaborators \<Rightarrow> AuthorizeParam \<Rightarrow> AuthUser \<Rightarrow> string \<Rightarrow> string \<Rightarrow> instant \<Rightarrow> database
     \<Rightarrow> (string \<times> string \<times> error option) \<times> database" where
  "Login c queryParams user str uuid now db =
     (if GetResponseType queryParams \<noteq> '''' \<and> GetClientId queryParams \<noteq> ''''
         \<and> GetRedirectURI queryParams \<noteq> ''''
      then
        let params = \<lparr>ResponseType = GetResponseType queryParams,
                       OAuthAuthorize.ClientId = GetClientId queryParams,
                       OAuthAuthorize.RedirectURI = GetRedirectURI queryParams,
                       State = GetState queryParams,
                       OAuthAuthorize.Scope = GetScope queryParams,
                       OAuthAuthorize.Nonce = GetNonce queryParams\<rparr>
        in (case GetOAuthAuthorize c params (AuthUser.ID user) str now db of
              ((callbackUrl, siteName, Some err), db') \<Rightarrow> (('''', siteName, Some err), db')
            | ((callbackUrl, siteName, None), db') \<Rightarrow> ((callbackUrl, siteName, None), db'))
      else if GetService queryParams \<noteq> ''''
      then
        let params = \<lparr>CASAuthorize.Service = GetService queryParams\<rparr>
        in (case GetCASAuthorize c params (AuthUser.ID user) (AuthUser.Username user) now db of
              ((callbackUrl, siteName, Some err), db') \<Rightarrow> (('''', siteName, Some err), db')
            | ((callbackUrl, siteName, None), db') \<Rightarrow> ((callbackUrl, siteName, None), db'))
      else if GetSAMLRequest queryParams \<noteq> ''''
      then
        let params = \<lparr>SAMLRequest.SAMLRequest = GetSAMLRequest queryParams,
                       SAMLRequest.RelayState = GetRelayState queryParams,
                       SigAlg = GetSigAlg queryParams,
                       Signature = GetSignature queryParams\<rparr>
        in (case GetSPAuthorize c params (AuthUser.ID user) uuid of
              (html, siteName, Some err) \<Rightarrow> (('''', siteName, Some err), db)
            | (html, siteName, None) \<Rightarrow> ((html, siteName, None), db))
      else if GetNginxRedirectURI queryParams \<noteq> ''''
      then
        let params = \<lparr>CallbackURL = GetNginxRedirectURI queryParams\<rparr>
        in (case GetNginxAuthorize c params (AuthUser.ID user) str now db of
              ((callbackUrl, siteName, Some err), db') \<Rightarrow> (('''', siteName, Some err), db')
            | ((callbackUrl, siteName, None), db') \<Rightarrow> ((callbackUrl, siteName, None), db'))
      else (('''', '''', None), db))"

subsection \<open>The logout handler\<close>

text \<open>
  \<open>Logout\<close> of the user controller. \<open>token\<close> is what \<open>Header.Get("Authorization")\<close>
  returns, the empty string for an absent header. \<open>parts[1]\<close> is indexed with no check
  of the length. \<open>RedisSet key\<close> is the error of
  \<open>global.RedisClient.Set(key, true, 24*time.Hour)\<close>. The handler answers with the
  error code 90500 or with the JSON body of code 0.
\<close>

datatype reply = Response int error | JSON_StatusOK_code0

definition Logout :: "(string \<Rightarrow> error option) \<Rightarrow> string \<Rightarrow> reply outcome" where
  "Logout RedisSet token =
     (let parts = SplitN2 token CHR '' ''
      in if length parts \<le> 1 then Panicked IndexOutOfRange
         else (case RedisSet (parts ! 1) of
                 Some err \<Rightarrow> Returned (Response 90500 err)
               | None \<Rightarrow> Returned JSON_StatusOK_code0))"

subsection \<open>Concurrent calls of \<open>GetAuthorizeCode\<close>\<close>

text \<open>
  \<open>GetAuthorizeCode\<close> issues two statements, a select and an update, outside a
  transaction. A call in progress has read the clock and is about to select, or has
  selected a row and is about to update, or has returned. The database runs one statement
  at a time; a schedule names the call that runs its next statement.
\<close>

datatype code_call =
    Selecting string instant
  | Updating SsoOAuthTicket instant
  | Finished "error + SsoOAuthTicket"

fun code_step :: "code_call \<Rightarrow> database \<Rightarrow> code_call \<times> database" where
  "code_step (Selecting code now) db =
     (case First (\<lambda>r. SsoOAuthTicket.Code r = code \<and> SsoOAuthTicket.ExpiresAt r > now
                       \<and> SsoOAuthTicket.ConsumedAt r = None) (sso_oauth_ticket db) of
        Inl err \<Rightarrow> (Finished (Inl err), db)
      | Inr ticket \<Rightarrow> (Updating ticket now, db))"
| "code_step (Updating ticket now) db =
     (case UpdateConsumedAtCode ticket now (sso_oauth_ticket db) of
        Inl err \<Rightarrow> (Finished (Inl err), db)
      | Inr rows \<Rightarrow>
          (Finished (Inr (ticket\<lparr>SsoOAuthTicket.ConsumedAt := Some now\<rparr>)),
           db\<lparr>sso_oauth_ticket := rows\<rparr>))"
| "code_step (Finished r) db = (Finished r, db)"

fun run_schedule :: "nat list \<Rightarrow> code_call list \<Rightarrow> database \<Rightarrow> code_call list \<times> database" where
  "run_schedule [] calls db = (calls, db)"
| "run_schedule (i # sched) calls db =
     (if i < length calls
      then (case code_step (calls ! i) db of
              (call', db') \<Rightarrow> run_schedule sched (calls[i := call']) db')
      else run_schedule sched calls db)"

definition succeeded :: "code_call \<Rightarrow> bool" where
  "succeeded call = (case call of Finished (Inr _) \<Rightarrow> True | _ \<Rightarrow> False)"

subsection \<open>Sequences of data-access calls\<close>

text \<open>
  The tables change only through the six data-access functions. A history is a list of
  their calls, run in order, each on the database the previous one left.
\<close>

datatype dao_call =
    CallCreateAuthorizeCode SsoOAuthTicket
  | CallCreateAuthorizeToken SsoNginxTicket
  | CallCreateAuthorizeTicket SsoCASTicket
  | CallGetAuthorizeCode string instant
  | CallGetAuthorizeToken string instant
  | CallGetAuthorizeTicket string instant

fun dao_run :: "dao_call \<Rightarrow> database \<Rightarrow> database" where
  "dao_run (CallCreateAuthorizeCode data) db = snd (CreateAuthorizeCode data db)"
| "dao_run (CallCreateAuthorizeToken data) db = snd (CreateAuthorizeToken data db)"
| "dao_run (CallCreateAuthorizeTicket data) db = snd (CreateAuthorizeTicket data db)"
| "dao_run (CallGetAuthorizeCode code now) db = snd (GetAuthorizeCode code now db)"
| "dao_run (CallGetAuthorizeToken token now) db = snd (GetAuthorizeToken token now db)"
| "dao_run (CallGetAuthorizeTicket st now) db = snd (GetAuthorizeTicket st now db)"

fun dao_history :: "dao_call list \<Rightarrow> database \<Rightarrow> database" where
  "dao_history [] db = db"
| "dao_history (call # calls) db = dao_history calls (dao_run call db)"

text \<open>A ticket value is used when a row carries it with a consumption stamp.\<close>

definition code_used :: "string \<Rightarrow> database \<Rightarrow> bool" where
  "code_used code db =
     (\<exists>r\<in>set (sso_oauth_ticket db).
        SsoOAuthTicket.Code r = code \<and> SsoOAuthTicket.ConsumedAt r \<noteq> None)"

definition ticket_used :: "string \<Rightarrow> database \<Rightarrow> bool" where
  "ticket_used st db =
     (\<exists>r\<in>set (sso_cas_ticket db).
        SsoCASTicket.Ticket r = st \<and> SsoCASTicket.ConsumedAt r \<noteq> None)"

section \<open>Example values\<close>

text \<open>A database with one live ticket of each kind.\<close>

definition example_database :: database where
  "example_database =
     \<lparr>sso_oauth_ticket =
        [\<lparr>SsoOAuthTicket.ID = 1, SsoOAuthTicket.Code = ''c1'', SsoOAuthTicket.RedirectURI = ''https://app/cb'',
          SsoOAuthTicket.UserID = 7, SsoOAuthTicket.ExpiresAt = 10,
          SsoOAuthTicket.ConsumedAt = None, SsoOAuthTicket.Nonce = Some ''n1''\<rparr>],
      sso_nginx_ticket =
        [\<lparr>SsoNginxTicket.ID = 1, SsoNginxTicket.Token = ''t1'', SsoNginxTicket.UserID = 7,
          SsoNginxTicket.ExpiresAt = 43200\<rparr>],
      sso_cas_ticket =
        [\<lparr>SsoCASTicket.ID = 1, SsoCASTicket.Ticket = ''ST-0-bob-09'', SsoCASTicket.Service = ''https://app/cas'',
          SsoCASTicket.UserID = 8, SsoCASTicket.ExpiresAt = 10,
          SsoCASTicket.ConsumedAt = None\<rparr>]\<rparr>"

text \<open>
  Two registered sites, one open to every subject and one closed with no members, a
  subject, and toy collaborators: a cipher that reverses the string, a token signer that
  joins its arguments, a MAC that is the length of key and message.
\<close>

definition example_site :: Site where
  "example_site =
     \<lparr>Site.Name = ''demo'', AllOpen = True, CallbackUrl = ''https://app/cb'',
      Site.ClientId = ''demo'', Site.ClientSecret = ''s3cret'', Certificate = ''MIIB'',
      DomainId = ''123'', Address = ''https://app'', RedirectUrl = ''https://app/home'',
      IDPName = ''idsphere''\<rparr>"

definition closed_site :: Site where
  "closed_site = example_site\<lparr>Site.Name := ''closed'', AllOpen := False\<rparr>"

definition example_user :: UserInfoWithMenu where
  "example_user =
     \<lparr>UserInfoWithMenu.ID = 7, UserInfoWithMenu.Name = ''Carol'',
      UserInfoWithMenu.Username = ''carol'', UserInfoWithMenu.Email = ''carol@example.org'',
      UserInfoWithMenu.PhoneNumber = ''555'', CtyunId = ''ct7''\<rparr>"

definition example_lookup :: "string \<Rightarrow> error + Site" where
  "example_lookup key =
     (if key = ''demo'' then Inr example_site
      else if key = ''closed'' then Inr closed_site
      else Inl ErrRecordNotFound)"

definition example_collaborators :: collaborators where
  "example_collaborators =
     \<lparr>GetOAuthSite = example_lookup,
      GetCASSite = example_lookup,
      GetSamlSite =
        (\<lambda>entity. if entity = ''https://signin.aliyun.com/x'' then Inr example_site
                   else example_lookup entity),
      GetNginxSite = example_lookup,
      IsUserInSite = (\<lambda>userId site. False),
      GetUserInfo = (\<lambda>userId. if userId = 7 then Inr example_user else Inl ErrRecordNotFound),
      Encrypt = (\<lambda>s. (rev s, None)),
      Decrypt = (\<lambda>s. (rev s, None)),
      GenerateOAuthToken =
        (\<lambda>userId name username aud scope nonce.
           (''jwt.'' @ username @ ''.'' @ aud @ ''.'' @ nonce, None)),
      secret = ''k'',
      externalUrl = ''https://idp'',
      privateKey = ''KEY'',
      certificate = ''CERT'',
      hmac_sha256 = (\<lambda>key msg. [of_nat (length key + length msg)]),
      ParseSAMLRequest =
        (\<lambda>request.
           if request = '''' then Inl (CollaboratorError ''EOF'')
           else Inr \<lparr>Issuer_Value = request,
                     AssertionConsumerServiceURL = ''https://sp/acs''\<rparr>),
      ValidateAuthnRequest = (\<lambda>method query payload idp. (None, idp)),
      NewSignedLoginResponse = (\<lambda>idp. ((''<Response>'' @ NameIdentifier idp, None), idp)),
      base64_EncodeToString = (\<lambda>s. s),
      samlPostFormTemplate = (\<lambda>d. (SAMLResponse.SAMLResponse d, None))\<rparr>"

definition example_params :: AuthorizeParam where
  "example_params =
     \<lparr>GetResponseType = '''', GetClientId = '''', GetRedirectURI = '''', GetScope = '''',
      GetState = '''', GetNonce = '''', GetService = '''', GetSAMLRequest = '''',
      GetRelayState = '''', GetSigAlg = '''', GetSignature = '''',
      GetNginxRedirectURI = ''''\<rparr>"

definition example_auth_user :: AuthUser where
  "example_auth_user = \<lparr>AuthUser.ID = 7, AuthUser.Username = ''carol''\<rparr>"

text \<open>A site registered for Aliyun sign-in whose address is an AWS access portal.\<close>

definition aws_addressed_site :: Site where
  "aws_addressed_site = example_site\<lparr>Address := ''https://d-1.awsapps.com/start''\<rparr>"

definition aliyun_request :: AuthnRequest where
  "aliyun_request =
     \<lparr>Issuer_Value = ''https://signin.aliyun.com/x'',
      AssertionConsumerServiceURL = ''https://sp/acs''\<rparr>"

text \<open>Collaborators whose user table has lost every user, or whose token signer fails.\<close>

definition collaborators_without_users :: collaborators where
  "collaborators_without_users =
     example_collaborators\<lparr>GetUserInfo := (\<lambda>userId. Inl ErrRecordNotFound)\<rparr>"

definition collaborators_without_key :: collaborators where
  "collaborators_without_key =
     example_collaborators\<lparr>GenerateOAuthToken :=
       (\<lambda>userId name username aud scope nonce. ('''', Some (CollaboratorError ''no key'')))\<rparr>"

definition example_token_request :: Token where
  "example_token_request =
     \<lparr>GrantType = ''authorization_code'', Token.Code = ''1c'', Token.ClientId = ''demo'',
      Token.RedirectURI = ''https://app/cb'', Token.ClientSecret = ''s3cret''\<rparr>"

definition example_oauth_ticket :: SsoOAuthTicket where
  "example_oauth_ticket =
     \<lparr>SsoOAuthTicket.ID = 1, SsoOAuthTicket.Code = ''c1'',
      SsoOAuthTicket.RedirectURI = ''https://app/cb'', SsoOAuthTicket.UserID = 7,
      SsoOAuthTicket.ExpiresAt = 10, SsoOAuthTicket.ConsumedAt = Some 5,
      SsoOAuthTicket.Nonce = Some ''n1''\<rparr>"

definition example_cas_ticket :: SsoCASTicket where
  "example_cas_ticket =
     \<lparr>SsoCASTicket.ID = 1, SsoCASTicket.Ticket = ''ST-0-bob-09'',
      SsoCASTicket.Service = ''https://app/cas'', SsoCASTicket.UserID = 8,
      SsoCASTicket.ExpiresAt = 10, SsoCASTicket.ConsumedAt = Some 5\<rparr>"

definition example_validate_request :: CASServiceValidate where
  "example_validate_request =
     \<lparr>CASServiceValidate.Service = ''demo'', CASServiceValidate.Ticket = ''ST-0-bob-09''\<rparr>"

text \<open>A table holding a ticket of five parts and a ticket with a wrong signature.\<close>

definition malformed_database :: database where
  "malformed_database =
     empty_database\<lparr>sso_cas_ticket :=
       [\<lparr>SsoCASTicket.ID = 1, SsoCASTicket.Ticket = ''ST-0-a-b-09'',
         SsoCASTicket.Service = ''https://app/cas'', SsoCASTicket.UserID = 7,
         SsoCASTicket.ExpiresAt = 10, SsoCASTicket.ConsumedAt = None\<rparr>,
        \<lparr>SsoCASTicket.ID = 2, SsoCASTicket.Ticket = ''ST-0-bob-ff'',
         SsoCASTicket.Service = ''https://app/cas'', SsoCASTicket.UserID = 7,
         SsoCASTicket.ExpiresAt = 10, SsoCASTicket.ConsumedAt = None\<rparr>]\<rparr>"

text \<open>
  The ticket string \<open>GetCASAuthorize\<close> builds (the final value of its variable \<open>st\<close>):
  the body \<open>ST-<unix>-<username>\<close>, a dash, and the hexadecimal HMAC of the body.
\<close>

definition GetCASAuthorize_st :: "collaborators \<Rightarrow> string \<Rightarrow> instant \<Rightarrow> string" where
  "GetCASAuthorize_st c username now =
     (let st = ''ST-'' @ Sprintf_d now @ ''-'' @ username;
          signature = EncodeToString (hmac_sha256 c (secret c) st)
      in st @ ''-'' @ signature)"

section \<open>Properties of the ticket store\<close>

subsection \<open>Selecting the first row\<close>

lemma find_Some_mem: "find P xs = Some x \<Longrightarrow> x \<in> set xs \<and> P x"
  by (induction xs) (auto split: if_splits)

lemma First_Inl:
  "First P rows = Inl e \<longleftrightarrow> (e = ErrRecordNotFound \<and> (\<forall>r\<in>set rows. \<not> P r))"
proof (cases "find P rows")
  case None
  have "\<forall>r\<in>set rows. \<not> P r" using None by (simp add: find_None_iff)
  then show ?thesis unfolding First_def None by auto
next
  case (Some x)
  then show ?thesis using find_Some_mem[OF Some] by (auto simp: First_def)
qed

lemma First_Inr: "First P rows = Inr r \<Longrightarrow> r \<in> set rows \<and> P r"
  by (cases "find P rows") (auto simp: First_def dest: find_Some_mem)

subsection \<open>OAuth authorization codes\<close>

lemma GetAuthorizeCode_succeeds_iff:
  assumes "list_all (\<lambda>r. SsoOAuthTicket.ID r \<noteq> 0) (sso_oauth_ticket db)"
  shows "(\<exists>t db'. GetAuthorizeCode code now db = (Inr t, db')) \<longleftrightarrow>
         (\<exists>r\<in>set (sso_oauth_ticket db). SsoOAuthTicket.Code r = code
              \<and> now < SsoOAuthTicket.ExpiresAt r \<and> SsoOAuthTicket.ConsumedAt r = None)"
proof -
  let ?P = "\<lambda>r. SsoOAuthTicket.Code r = code \<and> SsoOAuthTicket.ExpiresAt r > now
                       \<and> SsoOAuthTicket.ConsumedAt r = None"
  show ?thesis
  proof (cases "First ?P (sso_oauth_ticket db)")
    case (Inl e)
    then have "\<forall>r\<in>set (sso_oauth_ticket db). \<not> ?P r" by (simp add: First_Inl)
    moreover have "GetAuthorizeCode code now db = (Inl e, db)"
      using Inl by (simp add: GetAuthorizeCode_def)
    ultimately show ?thesis by auto
  next
    case (Inr r)
    then have r: "r \<in> set (sso_oauth_ticket db)" "?P r" using First_Inr[OF Inr] by auto
    with assms have "SsoOAuthTicket.ID r \<noteq> 0" by (auto simp: list_all_iff)
    then have "\<exists>t db'. GetAuthorizeCode code now db = (Inr t, db')"
      using Inr by (simp add: GetAuthorizeCode_def UpdateConsumedAtCode_def)
    with r show ?thesis by blast
  qed
qed

lemma GetAuthorizeCode_rows:
  "\<exists>f. sso_oauth_ticket (snd (GetAuthorizeCode code now db)) = map f (sso_oauth_ticket db)
     \<and> (\<forall>x. SsoOAuthTicket.Code (f x) = SsoOAuthTicket.Code x
            \<and> SsoOAuthTicket.ID (f x) = SsoOAuthTicket.ID x
            \<and> (SsoOAuthTicket.ConsumedAt x \<noteq> None \<longrightarrow> SsoOAuthTicket.ConsumedAt (f x) \<noteq> None))
     \<and> sso_nginx_ticket (snd (GetAuthorizeCode code now db)) = sso_nginx_ticket db
     \<and> sso_cas_ticket (snd (GetAuthorizeCode code now db)) = sso_cas_ticket db"
proof -
  let ?P = "\<lambda>r. SsoOAuthTicket.Code r = code \<and> SsoOAuthTicket.ExpiresAt r > now
                       \<and> SsoOAuthTicket.ConsumedAt r = None"
  have same: "snd (GetAuthorizeCode code now db) = db \<Longrightarrow> ?thesis"
    by (intro exI[of _ id]) simp
  show ?thesis
  proof (cases "First ?P (sso_oauth_ticket db)")
    case (Inl e)
    then have "snd (GetAuthorizeCode code now db) = db" by (simp add: GetAuthorizeCode_def)
    then show ?thesis by (rule same)
  next
    case (Inr r)
    show ?thesis
    proof (cases "SsoOAuthTicket.ID r = 0")
      case True
      with Inr have "snd (GetAuthorizeCode code now db) = db"
        by (simp add: GetAuthorizeCode_def UpdateConsumedAtCode_def)
      then show ?thesis by (rule same)
    next
      case False
      let ?f = "\<lambda>x. if SsoOAuthTicket.ID x = SsoOAuthTicket.ID r
                          then x\<lparr>SsoOAuthTicket.ConsumedAt := Some now\<rparr> else x"
      from False Inr have "snd (GetAuthorizeCode code now db) =
          db\<lparr>sso_oauth_ticket := map ?f (sso_oauth_ticket db)\<rparr>"
        by (simp add: GetAuthorizeCode_def UpdateConsumedAtCode_def)
      then show ?thesis by (intro exI[of _ ?f]) simp
    qed
  qed
qed

lemma store_ok_GetAuthorizeCode:
  assumes ok: "store_ok db"
  shows "store_ok (snd (GetAuthorizeCode code now db))"
proof -
  obtain f where f:
     "sso_oauth_ticket (snd (GetAuthorizeCode code now db)) = map f (sso_oauth_ticket db)"
     "\<And>x. SsoOAuthTicket.Code (f x) = SsoOAuthTicket.Code x"
     "\<And>x. SsoOAuthTicket.ID (f x) = SsoOAuthTicket.ID x"
     "sso_nginx_ticket (snd (GetAuthorizeCode code now db)) = sso_nginx_ticket db"
     "sso_cas_ticket (snd (GetAuthorizeCode code now db)) = sso_cas_ticket db"
    using GetAuthorizeCode_rows[of code now db] by auto
  have "map SsoOAuthTicket.Code (map f (sso_oauth_ticket db)) =
        map SsoOAuthTicket.Code (sso_oauth_ticket db)"
    by (simp add: f(2))
  with ok f show ?thesis
    by (simp add: store_ok_def list_all_iff del: map_map)
qed

lemma code_used_GetAuthorizeCode:
  assumes u: "code_used c db"
  shows "code_used c (snd (GetAuthorizeCode code now db))"
proof -
  obtain f where f:
     "sso_oauth_ticket (snd (GetAuthorizeCode code now db)) = map f (sso_oauth_ticket db)"
     "\<And>x. SsoOAuthTicket.Code (f x) = SsoOAuthTicket.Code x"
     "\<And>x. SsoOAuthTicket.ConsumedAt x \<noteq> None \<Longrightarrow> SsoOAuthTicket.ConsumedAt (f x) \<noteq> None"
    using GetAuthorizeCode_rows[of code now db] by auto
  from u obtain r where "r \<in> set (sso_oauth_ticket db)" "SsoOAuthTicket.Code r = c"
      "SsoOAuthTicket.ConsumedAt r \<noteq> None"
    by (auto simp: code_used_def)
  then have "f r \<in> set (map f (sso_oauth_ticket db))" "SsoOAuthTicket.Code (f r) = c"
      "SsoOAuthTicket.ConsumedAt (f r) \<noteq> None"
    using f(2,3) by auto
  then show ?thesis unfolding code_used_def f(1) by blast
qed

lemma code_used_blocks:
  assumes "store_ok db" "code_used c db"
  shows "GetAuthorizeCode c now db = (Inl ErrRecordNotFound, db)"
proof -
  from assms(2) obtain r where r: "r \<in> set (sso_oauth_ticket db)" "SsoOAuthTicket.Code r = c"
      "SsoOAuthTicket.ConsumedAt r \<noteq> None"
    by (auto simp: code_used_def)
  have inj: "inj_on SsoOAuthTicket.Code (set (sso_oauth_ticket db))"
    using assms(1) by (simp add: store_ok_def distinct_map)
  have "\<forall>x\<in>set (sso_oauth_ticket db).
          \<not> (SsoOAuthTicket.Code x = c \<and> SsoOAuthTicket.ExpiresAt x > now
               \<and> SsoOAuthTicket.ConsumedAt x = None)"
  proof
    fix x assume x: "x \<in> set (sso_oauth_ticket db)"
    show "\<not> (SsoOAuthTicket.Code x = c \<and> SsoOAuthTicket.ExpiresAt x > now
               \<and> SsoOAuthTicket.ConsumedAt x = None)"
    proof
      assume a: "SsoOAuthTicket.Code x = c \<and> SsoOAuthTicket.ExpiresAt x > now
                   \<and> SsoOAuthTicket.ConsumedAt x = None"
      then have "x = r" using inj x r by (auto dest: inj_onD)
      with a r show False by simp
    qed
  qed
  then have "First (\<lambda>x. SsoOAuthTicket.Code x = c \<and> SsoOAuthTicket.ExpiresAt x > now
                       \<and> SsoOAuthTicket.ConsumedAt x = None) (sso_oauth_ticket db)
               = Inl ErrRecordNotFound"
    by (simp add: First_Inl)
  then show ?thesis by (simp add: GetAuthorizeCode_def)
qed

lemma code_used_after_success:
  assumes "GetAuthorizeCode c now db = (Inr t, db')"
  shows "code_used c db'"
proof -
  let ?P = "\<lambda>r. SsoOAuthTicket.Code r = c \<and> SsoOAuthTicket.ExpiresAt r > now
                       \<and> SsoOAuthTicket.ConsumedAt r = None"
  let ?rows = "sso_oauth_ticket db"
  obtain r where fr: "First ?P ?rows = Inr r"
    using assms by (cases "First ?P ?rows") (auto simp: GetAuthorizeCode_def)
  then have r: "r \<in> set ?rows" "SsoOAuthTicket.Code r = c" using First_Inr[OF fr] by auto
  have nz: "SsoOAuthTicket.ID r \<noteq> 0"
    using assms fr by (auto simp: GetAuthorizeCode_def UpdateConsumedAtCode_def split: if_splits)
  let ?f = "\<lambda>x. if SsoOAuthTicket.ID x = SsoOAuthTicket.ID r
                          then x\<lparr>SsoOAuthTicket.ConsumedAt := Some now\<rparr> else x"
  have db': "sso_oauth_ticket db' = map ?f ?rows"
    using assms fr nz by (auto simp: GetAuthorizeCode_def UpdateConsumedAtCode_def)
  have "?f r \<in> set (map ?f ?rows)"
    using r(1) by (rule imageI[of r "set ?rows" ?f, folded set_map])
  moreover have "SsoOAuthTicket.Code (?f r) = c" "SsoOAuthTicket.ConsumedAt (?f r) \<noteq> None"
    using r by auto
  ultimately show ?thesis unfolding code_used_def db' by blast
qed

subsection \<open>CAS service tickets\<close>

lemma GetAuthorizeTicket_succeeds_iff:
  assumes "list_all (\<lambda>r. SsoCASTicket.ID r \<noteq> 0) (sso_cas_ticket db)"
  shows "(\<exists>t db'. GetAuthorizeTicket code now db = (Inr t, db')) \<longleftrightarrow>
         (\<exists>r\<in>set (sso_cas_ticket db). SsoCASTicket.Ticket r = code
              \<and> now < SsoCASTicket.ExpiresAt r \<and> SsoCASTicket.ConsumedAt r = None)"
proof -
  let ?P = "\<lambda>r. SsoCASTicket.Ticket r = code \<and> SsoCASTicket.ExpiresAt r > now
                       \<and> SsoCASTicket.ConsumedAt r = None"
  show ?thesis
  proof (cases "First ?P (sso_cas_ticket db)")
    case (Inl e)
    then have "\<forall>r\<in>set (sso_cas_ticket db). \<not> ?P r" by (simp add: First_Inl)
    moreover have "GetAuthorizeTicket code now db = (Inl e, db)"
      using Inl by (simp add: GetAuthorizeTicket_def)
    ultimately show ?thesis by auto
  next
    case (Inr r)
    then have r: "r \<in> set (sso_cas_ticket db)" "?P r" using First_Inr[OF Inr] by auto
    with assms have "SsoCASTicket.ID r \<noteq> 0" by (auto simp: list_all_iff)
    then have "\<exists>t db'. GetAuthorizeTicket code now db = (Inr t, db')"
      using Inr by (simp add: GetAuthorizeTicket_def UpdateConsumedAtTicket_def)
    with r show ?thesis by blast
  qed
qed

lemma GetAuthorizeTicket_rows:
  "\<exists>f. sso_cas_ticket (snd (GetAuthorizeTicket code now db)) = map f (sso_cas_ticket db)
     \<and> (\<forall>x. SsoCASTicket.Ticket (f x) = SsoCASTicket.Ticket x
            \<and> SsoCASTicket.ID (f x) = SsoCASTicket.ID x
            \<and> (SsoCASTicket.ConsumedAt x \<noteq> None \<longrightarrow> SsoCASTicket.ConsumedAt (f x) \<noteq> None))
     \<and> sso_nginx_ticket (snd (GetAuthorizeTicket code now db)) = sso_nginx_ticket db
     \<and> sso_oauth_ticket (snd (GetAuthorizeTicket code now db)) = sso_oauth_ticket db"
proof -
  let ?P = "\<lambda>r. SsoCASTicket.Ticket r = code \<and> SsoCASTicket.ExpiresAt r > now
                       \<and> SsoCASTicket.ConsumedAt r = None"
  have same: "snd (GetAuthorizeTicket code now db) = db \<Longrightarrow> ?thesis"
    by (intro exI[of _ id]) simp
  show ?thesis
  proof (cases "First ?P (sso_cas_ticket db)")
    case (Inl e)
    then have "snd (GetAuthorizeTicket code now db) = db" by (simp add: GetAuthorizeTicket_def)
    then show ?thesis by (rule same)
  next
    case (Inr r)
    show ?thesis
    proof (cases "SsoCASTicket.ID r = 0")
      case True
      with Inr have "snd (GetAuthorizeTicket code now db) = db"
        by (simp add: GetAuthorizeTicket_def UpdateConsumedAtTicket_def)
      then show ?thesis by (rule same)
    next
      case False
      let ?f = "\<lambda>x. if SsoCASTicket.ID x = SsoCASTicket.ID r
                          then x\<lparr>SsoCASTicket.ConsumedAt := Some now\<rparr> else x"
      from False Inr have "snd (GetAuthorizeTicket code now db) =
          db\<lparr>sso_cas_ticket := map ?f (sso_cas_ticket db)\<rparr>"
        by (simp add: GetAuthorizeTicket_def UpdateConsumedAtTicket_def)
      then show ?thesis by (intro exI[of _ ?f]) simp
    qed
  qed
qed

lemma store_ok_GetAuthorizeTicket:
  assumes ok: "store_ok db"
  shows "store_ok (snd (GetAuthorizeTicket code now db))"
proof -
  obtain f where f:
     "sso_cas_ticket (snd (GetAuthorizeTicket code now db)) = map f (sso_cas_ticket db)"
     "\<And>x. SsoCASTicket.Ticket (f x) = SsoCASTicket.Ticket x"
     "\<And>x. SsoCASTicket.ID (f x) = SsoCASTicket.ID x"
     "sso_nginx_ticket (snd (GetAuthorizeTicket code now db)) = sso_nginx_ticket db"
     "sso_oauth_ticket (snd (GetAuthorizeTicket code now db)) = sso_oauth_ticket db"
    using GetAuthorizeTicket_rows[of code now db] by auto
  have "map SsoCASTicket.Ticket (map f (sso_cas_ticket db)) =
        map SsoCASTicket.Ticket (sso_cas_ticket db)"
    by (simp add: f(2))
  with ok f show ?thesis
    by (simp add: store_ok_def list_all_iff del: map_map)
qed

lemma ticket_used_GetAuthorizeTicket:
  assumes u: "ticket_used c db"
  shows "ticket_used c (snd (GetAuthorizeTicket code now db))"
proof -
  obtain f where f:
     "sso_cas_ticket (snd (GetAuthorizeTicket code now db)) = map f (sso_cas_ticket db)"
     "\<And>x. SsoCASTicket.Ticket (f x) = SsoCASTicket.Ticket x"
     "\<And>x. SsoCASTicket.ConsumedAt x \<noteq> None \<Longrightarrow> SsoCASTicket.ConsumedAt (f x) \<noteq> None"
    using GetAuthorizeTicket_rows[of code now db] by auto
  from u obtain r where "r \<in> set (sso_cas_ticket db)" "SsoCASTicket.Ticket r = c"
      "SsoCASTicket.ConsumedAt r \<noteq> None"
    by (auto simp: ticket_used_def)
  then have "f r \<in> set (map f (sso_cas_ticket db))" "SsoCASTicket.Ticket (f r) = c"
      "SsoCASTicket.ConsumedAt (f r) \<noteq> None"
    using f(2,3) by auto
  then show ?thesis unfolding ticket_used_def f(1) by blast
qed

lemma ticket_used_blocks:
  assumes "store_ok db" "ticket_used c db"
  shows "GetAuthorizeTicket c now db = (Inl ErrRecordNotFound, db)"
proof -
  from assms(2) obtain r where r: "r \<in> set (sso_cas_ticket db)" "SsoCASTicket.Ticket r = c"
      "SsoCASTicket.ConsumedAt r \<noteq> None"
    by (auto simp: ticket_used_def)
  have inj: "inj_on SsoCASTicket.Ticket (set (sso_cas_ticket db))"
    using assms(1) by (simp add: store_ok_def distinct_map)
  have "\<forall>x\<in>set (sso_cas_ticket db).
          \<not> (SsoCASTicket.Ticket x = c \<and> SsoCASTicket.ExpiresAt x > now
               \<and> SsoCASTicket.ConsumedAt x = None)"
  proof
    fix x assume x: "x \<in> set (sso_cas_ticket db)"
    show "\<not> (SsoCASTicket.Ticket x = c \<and> SsoCASTicket.ExpiresAt x > now
               \<and> SsoCASTicket.ConsumedAt x = None)"
    proof
      assume a: "SsoCASTicket.Ticket x = c \<and> SsoCASTicket.ExpiresAt x > now
                   \<and> SsoCASTicket.ConsumedAt x = None"
      then have "x = r" using inj x r by (auto dest: inj_onD)
      with a r show False by simp
    qed
  qed
  then have "First (\<lambda>x. SsoCASTicket.Ticket x = c \<and> SsoCASTicket.ExpiresAt x > now
                       \<and> SsoCASTicket.ConsumedAt x = None) (sso_cas_ticket db)
               = Inl ErrRecordNotFound"
    by (simp add: First_Inl)
  then show ?thesis by (simp add: GetAuthorizeTicket_def)
qed

lemma ticket_used_after_success:
  assumes "GetAuthorizeTicket c now db = (Inr t, db')"
  shows "ticket_used c db'"
proof -
  let ?P = "\<lambda>r. SsoCASTicket.Ticket r = c \<and> SsoCASTicket.ExpiresAt r > now
                       \<and> SsoCASTicket.ConsumedAt r = None"
  let ?rows = "sso_cas_ticket db"
  obtain r where fr: "First ?P ?rows = Inr r"
    using assms by (cases "First ?P ?rows") (auto simp: GetAuthorizeTicket_def)
  then have r: "r \<in> set ?rows" "SsoCASTicket.Ticket r = c" using First_Inr[OF fr] by auto
  have nz: "SsoCASTicket.ID r \<noteq> 0"
    using assms fr by (auto simp: GetAuthorizeTicket_def UpdateConsumedAtTicket_def split: if_splits)
  let ?f = "\<lambda>x. if SsoCASTicket.ID x = SsoCASTicket.ID r
                          then x\<lparr>SsoCASTicket.ConsumedAt := Some now\<rparr> else x"
  have db': "sso_cas_ticket db' = map ?f ?rows"
    using assms fr nz by (auto simp: GetAuthorizeTicket_def UpdateConsumedAtTicket_def)
  have "?f r \<in> set (map ?f ?rows)"
    using r(1) by (rule imageI[of r "set ?rows" ?f, folded set_map])
  moreover have "SsoCASTicket.Ticket (?f r) = c" "SsoCASTicket.ConsumedAt (?f r) \<noteq> None"
    using r by auto
  ultimately show ?thesis unfolding ticket_used_def db' by blast
qed

subsection \<open>Nginx tokens\<close>

lemma GetAuthorizeToken_unchanged: "snd (GetAuthorizeToken token now db) = db"
  by (simp add: GetAuthorizeToken_def split: sum.splits)

lemma GetAuthorizeToken_succeeds_iff:
  "(\<exists>t. GetAuthorizeToken token now db = (Inr t, db)) \<longleftrightarrow>
   (\<exists>r\<in>set (sso_nginx_ticket db). SsoNginxTicket.Token r = token
        \<and> now < SsoNginxTicket.ExpiresAt r)"
proof -
  let ?P = "\<lambda>r. SsoNginxTicket.Token r = token \<and> SsoNginxTicket.ExpiresAt r > now"
  show ?thesis
  proof (cases "First ?P (sso_nginx_ticket db)")
    case (Inl e)
    then have "\<forall>r\<in>set (sso_nginx_ticket db). \<not> ?P r" by (simp add: First_Inl)
    moreover have "GetAuthorizeToken token now db = (Inl e, db)"
      using Inl by (simp add: GetAuthorizeToken_def)
    ultimately show ?thesis by auto
  next
    case (Inr r)
    then have "r \<in> set (sso_nginx_ticket db)" "?P r" using First_Inr[OF Inr] by auto
    moreover have "GetAuthorizeToken token now db = (Inr r, db)"
      using Inr by (simp add: GetAuthorizeToken_def)
    ultimately show ?thesis by blast
  qed
qed

lemma GetAuthorizeToken_again:
  assumes "GetAuthorizeToken token now db = (Inr t, db')" "now' < SsoNginxTicket.ExpiresAt t"
  shows "\<exists>t'. GetAuthorizeToken token now' db' = (Inr t', db')"
proof -
  let ?P = "\<lambda>r. SsoNginxTicket.Token r = token \<and> SsoNginxTicket.ExpiresAt r > now"
  have db': "db' = db"
    using assms(1) GetAuthorizeToken_unchanged[of token now db] by simp
  have "First ?P (sso_nginx_ticket db) = Inr t"
    using assms(1) by (cases "First ?P (sso_nginx_ticket db)") (auto simp: GetAuthorizeToken_def)
  then have "t \<in> set (sso_nginx_ticket db)" "SsoNginxTicket.Token t = token"
    using First_Inr by fastforce+
  with assms(2) have "\<exists>r\<in>set (sso_nginx_ticket db). SsoNginxTicket.Token r = token
        \<and> now' < SsoNginxTicket.ExpiresAt r"
    by blast
  then show ?thesis unfolding db' by (simp add: GetAuthorizeToken_succeeds_iff)
qed

subsection \<open>Creating tickets, and histories of calls\<close>

lemma store_ok_empty: "store_ok empty_database"
  by (simp add: store_ok_def empty_database_def)

lemma store_ok_CreateAuthorizeCode:
  "store_ok db \<Longrightarrow> store_ok (snd (CreateAuthorizeCode data db))"
  by (auto simp: store_ok_def CreateAuthorizeCode_def)

lemma store_ok_CreateAuthorizeToken:
  "store_ok db \<Longrightarrow> store_ok (snd (CreateAuthorizeToken data db))"
  by (auto simp: store_ok_def CreateAuthorizeToken_def)

lemma store_ok_CreateAuthorizeTicket:
  "store_ok db \<Longrightarrow> store_ok (snd (CreateAuthorizeTicket data db))"
  by (auto simp: store_ok_def CreateAuthorizeTicket_def)

lemma store_ok_dao_run: "store_ok db \<Longrightarrow> store_ok (dao_run call db)"
  by (cases call)
     (simp_all add: store_ok_CreateAuthorizeCode store_ok_CreateAuthorizeToken
        store_ok_CreateAuthorizeTicket store_ok_GetAuthorizeCode store_ok_GetAuthorizeTicket
        GetAuthorizeToken_unchanged)

lemma store_ok_dao_history: "store_ok db \<Longrightarrow> store_ok (dao_history calls db)"
  by (induction calls arbitrary: db) (simp_all add: store_ok_dao_run)

lemma code_used_dao_run: "code_used c db \<Longrightarrow> code_used c (dao_run call db)"
proof (cases call)
  case (CallGetAuthorizeCode code now)
  assume "code_used c db"
  then show ?thesis using CallGetAuthorizeCode by (simp add: code_used_GetAuthorizeCode)
next
  case (CallGetAuthorizeTicket st now)
  assume "code_used c db"
  moreover have "sso_oauth_ticket (snd (GetAuthorizeTicket st now db)) = sso_oauth_ticket db"
    using GetAuthorizeTicket_rows[of st now db] by auto
  ultimately show ?thesis using CallGetAuthorizeTicket by (simp add: code_used_def)
qed (auto simp: code_used_def CreateAuthorizeCode_def CreateAuthorizeToken_def
       CreateAuthorizeTicket_def GetAuthorizeToken_unchanged)

lemma ticket_used_dao_run: "ticket_used st db \<Longrightarrow> ticket_used st (dao_run call db)"
proof (cases call)
  case (CallGetAuthorizeTicket st' now)
  assume "ticket_used st db"
  then show ?thesis using CallGetAuthorizeTicket by (simp add: ticket_used_GetAuthorizeTicket)
next
  case (CallGetAuthorizeCode code now)
  assume "ticket_used st db"
  moreover have "sso_cas_ticket (snd (GetAuthorizeCode code now db)) = sso_cas_ticket db"
    using GetAuthorizeCode_rows[of code now db] by auto
  ultimately show ?thesis using CallGetAuthorizeCode by (simp add: ticket_used_def)
qed (auto simp: ticket_used_def CreateAuthorizeCode_def CreateAuthorizeToken_def
       CreateAuthorizeTicket_def GetAuthorizeToken_unchanged)

lemma code_used_dao_history: "code_used c db \<Longrightarrow> code_used c (dao_history calls db)"
  by (induction calls arbitrary: db) (simp_all add: code_used_dao_run)

lemma ticket_used_dao_history: "ticket_used st db \<Longrightarrow> ticket_used st (dao_history calls db)"
  by (induction calls arbitrary: db) (simp_all add: ticket_used_dao_run)

lemma GetAuthorizeCode_never_again:
  assumes "store_ok db" "GetAuthorizeCode code now db = (Inr t, db')"
  shows "GetAuthorizeCode code now' (dao_history calls db') =
           (Inl ErrRecordNotFound, dao_history calls db')"
proof -
  have "store_ok db'" using store_ok_GetAuthorizeCode[OF assms(1), of code now] assms(2) by simp
  then have "store_ok (dao_history calls db')" by (rule store_ok_dao_history)
  moreover have "code_used code (dao_history calls db')"
    using code_used_after_success[OF assms(2)] by (rule code_used_dao_history)
  ultimately show ?thesis by (rule code_used_blocks)
qed

lemma GetAuthorizeTicket_never_again:
  assumes "store_ok db" "GetAuthorizeTicket st now db = (Inr t, db')"
  shows "GetAuthorizeTicket st now' (dao_history calls db') =
           (Inl ErrRecordNotFound, dao_history calls db')"
proof -
  have "store_ok db'" using store_ok_GetAuthorizeTicket[OF assms(1), of st now] assms(2) by simp
  then have "store_ok (dao_history calls db')" by (rule store_ok_dao_history)
  moreover have "ticket_used st (dao_history calls db')"
    using ticket_used_after_success[OF assms(2)] by (rule ticket_used_dao_history)
  ultimately show ?thesis by (rule ticket_used_blocks)
qed

lemma GetAuthorizeCode_stamps:
  assumes "GetAuthorizeCode c now db = (Inr t, db')"
  shows "SsoOAuthTicket.ConsumedAt t = Some now \<and>
         (\<exists>r\<in>set (sso_oauth_ticket db').
            SsoOAuthTicket.Code r = c \<and> SsoOAuthTicket.ConsumedAt r = Some now)"
proof -
  let ?P = "\<lambda>r. SsoOAuthTicket.Code r = c \<and> SsoOAuthTicket.ExpiresAt r > now
                       \<and> SsoOAuthTicket.ConsumedAt r = None"
  let ?rows = "sso_oauth_ticket db"
  obtain r where fr: "First ?P ?rows = Inr r"
    using assms by (cases "First ?P ?rows") (auto simp: GetAuthorizeCode_def)
  then have r: "r \<in> set ?rows" "SsoOAuthTicket.Code r = c" using First_Inr[OF fr] by auto
  have nz: "SsoOAuthTicket.ID r \<noteq> 0"
    using assms fr by (auto simp: GetAuthorizeCode_def UpdateConsumedAtCode_def split: if_splits)
  let ?f = "\<lambda>x. if SsoOAuthTicket.ID x = SsoOAuthTicket.ID r
                          then x\<lparr>SsoOAuthTicket.ConsumedAt := Some now\<rparr> else x"
  have db': "sso_oauth_ticket db' = map ?f ?rows"
    and t: "t = r\<lparr>SsoOAuthTicket.ConsumedAt := Some now\<rparr>"
    using assms fr nz by (auto simp: GetAuthorizeCode_def UpdateConsumedAtCode_def)
  have "?f r \<in> set (map ?f ?rows)"
    using r(1) by (rule imageI[of r "set ?rows" ?f, folded set_map])
  moreover have "SsoOAuthTicket.Code (?f r) = c" "SsoOAuthTicket.ConsumedAt (?f r) = Some now"
    using r by auto
  ultimately have "\<exists>y\<in>set (map ?f ?rows).
      SsoOAuthTicket.Code y = c \<and> SsoOAuthTicket.ConsumedAt y = Some now"
    by blast
  moreover have "SsoOAuthTicket.ConsumedAt t = Some now" by (simp add: t)
  ultimately show ?thesis unfolding db' by (intro conjI)
qed

lemma GetAuthorizeTicket_stamps:
  assumes "GetAuthorizeTicket c now db = (Inr t, db')"
  shows "SsoCASTicket.ConsumedAt t = Some now \<and>
         (\<exists>r\<in>set (sso_cas_ticket db').
            SsoCASTicket.Ticket r = c \<and> SsoCASTicket.ConsumedAt r = Some now)"
proof -
  let ?P = "\<lambda>r. SsoCASTicket.Ticket r = c \<and> SsoCASTicket.ExpiresAt r > now
                       \<and> SsoCASTicket.ConsumedAt r = None"
  let ?rows = "sso_cas_ticket db"
  obtain r where fr: "First ?P ?rows = Inr r"
    using assms by (cases "First ?P ?rows") (auto simp: GetAuthorizeTicket_def)
  then have r: "r \<in> set ?rows" "SsoCASTicket.Ticket r = c" using First_Inr[OF fr] by auto
  have nz: "SsoCASTicket.ID r \<noteq> 0"
    using assms fr
    by (auto simp: GetAuthorizeTicket_def UpdateConsumedAtTicket_def split: if_splits)
  let ?f = "\<lambda>x. if SsoCASTicket.ID x = SsoCASTicket.ID r
                          then x\<lparr>SsoCASTicket.ConsumedAt := Some now\<rparr> else x"
  have db': "sso_cas_ticket db' = map ?f ?rows"
    and t: "t = r\<lparr>SsoCASTicket.ConsumedAt := Some now\<rparr>"
    using assms fr nz by (auto simp: GetAuthorizeTicket_def UpdateConsumedAtTicket_def)
  have "?f r \<in> set (map ?f ?rows)"
    using r(1) by (rule imageI[of r "set ?rows" ?f, folded set_map])
  moreover have "SsoCASTicket.Ticket (?f r) = c" "SsoCASTicket.ConsumedAt (?f r) = Some now"
    using r by auto
  ultimately have "\<exists>y\<in>set (map ?f ?rows).
      SsoCASTicket.Ticket y = c \<and> SsoCASTicket.ConsumedAt y = Some now"
    by blast
  moreover have "SsoCASTicket.ConsumedAt t = Some now" by (simp add: t)
  ultimately show ?thesis unfolding db' by (intro conjI)
qed

text \<open>
  Claim C1. In a store with distinct ticket values and non-zero keys (the state every
  history of data-access calls keeps), the lookup of an OAuth code or of a CAS ticket
  succeeds exactly when a row carries the value, the clock is before its expiry and its
  consumption stamp is null. A successful lookup stamps the row with the clock reading,
  and from then on every lookup of the same value fails, at any instant and after any
  further data-access calls. The lookup of an Nginx token succeeds exactly when a row
  carries the value and the clock is before its expiry; it leaves the database as it
  is, so it succeeds again at every instant before the expiry of the row it returned.
\<close>

theorem ticket_lookup_single_use:
  assumes "store_ok db"
  shows
    "((\<exists>t db'. GetAuthorizeCode v now db = (Inr t, db')) \<longleftrightarrow>
        (\<exists>r\<in>set (sso_oauth_ticket db). SsoOAuthTicket.Code r = v
            \<and> now < SsoOAuthTicket.ExpiresAt r \<and> SsoOAuthTicket.ConsumedAt r = None))
     \<and> (\<forall>t db' now' calls. GetAuthorizeCode v now db = (Inr t, db') \<longrightarrow>
           (\<exists>r\<in>set (sso_oauth_ticket db').
               SsoOAuthTicket.Code r = v \<and> SsoOAuthTicket.ConsumedAt r = Some now)
           \<and> GetAuthorizeCode v now' (dao_history calls db') =
               (Inl ErrRecordNotFound, dao_history calls db'))
     \<and> ((\<exists>t db'. GetAuthorizeTicket v now db = (Inr t, db')) \<longleftrightarrow>
        (\<exists>r\<in>set (sso_cas_ticket db). SsoCASTicket.Ticket r = v
            \<and> now < SsoCASTicket.ExpiresAt r \<and> SsoCASTicket.ConsumedAt r = None))
     \<and> (\<forall>t db' now' calls. GetAuthorizeTicket v now db = (Inr t, db') \<longrightarrow>
           (\<exists>r\<in>set (sso_cas_ticket db').
               SsoCASTicket.Ticket r = v \<and> SsoCASTicket.ConsumedAt r = Some now)
           \<and> GetAuthorizeTicket v now' (dao_history calls db') =
               (Inl ErrRecordNotFound, dao_history calls db'))
     \<and> ((\<exists>t. GetAuthorizeToken v now db = (Inr t, db)) \<longleftrightarrow>
        (\<exists>r\<in>set (sso_nginx_ticket db). SsoNginxTicket.Token r = v
            \<and> now < SsoNginxTicket.ExpiresAt r))
     \<and> snd (GetAuthorizeToken v now db) = db
     \<and> (\<forall>t db' now'. GetAuthorizeToken v now db = (Inr t, db')
            \<and> now' < SsoNginxTicket.ExpiresAt t \<longrightarrow>
           (\<exists>t'. GetAuthorizeToken v now' db' = (Inr t', db')))"
proof -
  have ids: "list_all (\<lambda>r. SsoOAuthTicket.ID r \<noteq> 0) (sso_oauth_ticket db)"
       "list_all (\<lambda>r. SsoCASTicket.ID r \<noteq> 0) (sso_cas_ticket db)"
    using assms by (simp_all add: store_ok_def)
  have a: "(\<exists>t db'. GetAuthorizeCode v now db = (Inr t, db')) \<longleftrightarrow>
        (\<exists>r\<in>set (sso_oauth_ticket db). SsoOAuthTicket.Code r = v
            \<and> now < SsoOAuthTicket.ExpiresAt r \<and> SsoOAuthTicket.ConsumedAt r = None)"
    by (rule GetAuthorizeCode_succeeds_iff[OF ids(1)])
  have b: "\<forall>t db' now' calls. GetAuthorizeCode v now db = (Inr t, db') \<longrightarrow>
           (\<exists>r\<in>set (sso_oauth_ticket db').
               SsoOAuthTicket.Code r = v \<and> SsoOAuthTicket.ConsumedAt r = Some now)
           \<and> GetAuthorizeCode v now' (dao_history calls db') =
               (Inl ErrRecordNotFound, dao_history calls db')"
    using GetAuthorizeCode_stamps GetAuthorizeCode_never_again[OF assms] by blast
  have c: "(\<exists>t db'. GetAuthorizeTicket v now db = (Inr t, db')) \<longleftrightarrow>
        (\<exists>r\<in>set (sso_cas_ticket db). SsoCASTicket.Ticket r = v
            \<and> now < SsoCASTicket.ExpiresAt r \<and> SsoCASTicket.ConsumedAt r = None)"
    by (rule GetAuthorizeTicket_succeeds_iff[OF ids(2)])
  have d: "\<forall>t db' now' calls. GetAuthorizeTicket v now db = (Inr t, db') \<longrightarrow>
           (\<exists>r\<in>set (sso_cas_ticket db').
               SsoCASTicket.Ticket r = v \<and> SsoCASTicket.ConsumedAt r = Some now)
           \<and> GetAuthorizeTicket v now' (dao_history calls db') =
               (Inl ErrRecordNotFound, dao_history calls db')"
    using GetAuthorizeTicket_stamps GetAuthorizeTicket_never_again[OF assms] by blast
  have e: "(\<exists>t. GetAuthorizeToken v now db = (Inr t, db)) \<longleftrightarrow>
        (\<exists>r\<in>set (sso_nginx_ticket db). SsoNginxTicket.Token r = v
            \<and> now < SsoNginxTicket.ExpiresAt r)"
    by (rule GetAuthorizeToken_succeeds_iff)
  have f: "snd (GetAuthorizeToken v now db) = db"
    by (rule GetAuthorizeToken_unchanged)
  have g: "\<forall>t db' now'. GetAuthorizeToken v now db = (Inr t, db')
            \<and> now' < SsoNginxTicket.ExpiresAt t \<longrightarrow>
           (\<exists>t'. GetAuthorizeToken v now' db' = (Inr t', db'))"
    using GetAuthorizeToken_again by blast
  from a b c d e f g show ?thesis by (intro conjI)
qed

theorem ticket_lookup_single_use_witness:
  "store_ok example_database
   \<and> (\<exists>t db'. GetAuthorizeCode ''c1'' 5 example_database = (Inr t, db'))
   \<and> GetAuthorizeCode ''c1'' 6 (snd (GetAuthorizeCode ''c1'' 5 example_database)) =
        (Inl ErrRecordNotFound, snd (GetAuthorizeCode ''c1'' 5 example_database))
   \<and> (\<exists>t db'. GetAuthorizeTicket ''ST-0-bob-09'' 5 example_database = (Inr t, db'))
   \<and> GetAuthorizeTicket ''ST-0-bob-09'' 6 (snd (GetAuthorizeTicket ''ST-0-bob-09'' 5 example_database)) =
        (Inl ErrRecordNotFound, snd (GetAuthorizeTicket ''ST-0-bob-09'' 5 example_database))
   \<and> (\<exists>t. GetAuthorizeToken ''t1'' 5 example_database = (Inr t, example_database))
   \<and> (\<exists>t. GetAuthorizeToken ''t1'' 43199 (snd (GetAuthorizeToken ''t1'' 5 example_database)) = (Inr t, example_database))"
proof -
  have ok: "store_ok example_database"
    by (simp add: store_ok_def example_database_def)
  have code: "\<exists>t db'. GetAuthorizeCode ''c1'' 5 example_database = (Inr t, db')"
    using ticket_lookup_single_use[OF ok, of "''c1''" 5] by (simp add: example_database_def)
  then obtain t db' where run: "GetAuthorizeCode ''c1'' 5 example_database = (Inr t, db')" by blast
  have code2: "GetAuthorizeCode ''c1'' 6 db' = (Inl ErrRecordNotFound, db')"
    using ticket_lookup_single_use[OF ok, of "''c1''" 5] run dao_history.simps(1)
    by metis
  have st: "\<exists>t db'. GetAuthorizeTicket ''ST-0-bob-09'' 5 example_database = (Inr t, db')"
    using ticket_lookup_single_use[OF ok, of "''ST-0-bob-09''" 5] by (simp add: example_database_def)
  then obtain t2 db2 where run2: "GetAuthorizeTicket ''ST-0-bob-09'' 5 example_database = (Inr t2, db2)" by blast
  have st2: "GetAuthorizeTicket ''ST-0-bob-09'' 6 db2 = (Inl ErrRecordNotFound, db2)"
    using ticket_lookup_single_use[OF ok, of "''ST-0-bob-09''" 5] run2 dao_history.simps(1)
    by metis
  have tok: "\<exists>t. GetAuthorizeToken ''t1'' 5 example_database = (Inr t, example_database)"
    using ticket_lookup_single_use[OF ok, of "''t1''" 5] by (simp add: example_database_def)
  have tok2: "\<exists>t. GetAuthorizeToken ''t1'' 43199 example_database = (Inr t, example_database)"
    using ticket_lookup_single_use[OF ok, of "''t1''" 43199] by (simp add: example_database_def)
  have same: "snd (GetAuthorizeToken ''t1'' 5 example_database) = example_database"
    using ticket_lookup_single_use[OF ok, of "''t1''" 5] by blast
  show ?thesis using ok code code2 st st2 tok tok2 run run2 same by simp
qed

section \<open>Properties of the service\<close>

subsection \<open>The dispatcher\<close>

text \<open>
  Claim C2. \<open>Login\<close> runs exactly one engine, the first whose trigger is present, in
  the order OAuth, CAS, SAML, Nginx: its site name, its error and the database it leaves
  are those of that engine, and its payload is the engine's unless the engine returned an
  error. With \<open>response_type\<close>, \<open>client_id\<close> and \<open>redirect_uri\<close> all non-empty the
  engine is OAuth whatever the other parameters are; with no trigger present the result
  is empty, without an error, and the database is untouched.
\<close>

theorem Login_first_match:
  "(GetResponseType q \<noteq> '''' \<and> GetClientId q \<noteq> '''' \<and> GetRedirectURI q \<noteq> '''' \<longrightarrow>
      (let r = GetOAuthAuthorize c
                 \<lparr>ResponseType = GetResponseType q, OAuthAuthorize.ClientId = GetClientId q,
                  OAuthAuthorize.RedirectURI = GetRedirectURI q, State = GetState q,
                  OAuthAuthorize.Scope = GetScope q, OAuthAuthorize.Nonce = GetNonce q\<rparr>
                 (AuthUser.ID user) str now db
       in Login c q user str uuid now db =
            ((if snd (snd (fst r)) = None then fst (fst r) else '''', snd (fst r)), snd r)))
   \<and> (\<not> (GetResponseType q \<noteq> '''' \<and> GetClientId q \<noteq> '''' \<and> GetRedirectURI q \<noteq> '''')
        \<and> GetService q \<noteq> '''' \<longrightarrow>
      (let r = GetCASAuthorize c \<lparr>CASAuthorize.Service = GetService q\<rparr>
                 (AuthUser.ID user) (AuthUser.Username user) now db
       in Login c q user str uuid now db =
            ((if snd (snd (fst r)) = None then fst (fst r) else '''', snd (fst r)), snd r)))
   \<and> (\<not> (GetResponseType q \<noteq> '''' \<and> GetClientId q \<noteq> '''' \<and> GetRedirectURI q \<noteq> '''')
        \<and> GetService q = '''' \<and> GetSAMLRequest q \<noteq> '''' \<longrightarrow>
      (let r = GetSPAuthorize c
                 \<lparr>SAMLRequest.SAMLRequest = GetSAMLRequest q,
                  SAMLRequest.RelayState = GetRelayState q,
                  SigAlg = GetSigAlg q, Signature = GetSignature q\<rparr>
                 (AuthUser.ID user) uuid
       in Login c q user str uuid now db =
            ((if snd (snd r) = None then fst r else '''', snd r), db)))
   \<and> (\<not> (GetResponseType q \<noteq> '''' \<and> GetClientId q \<noteq> '''' \<and> GetRedirectURI q \<noteq> '''')
        \<and> GetService q = '''' \<and> GetSAMLRequest q = '''' \<and> GetNginxRedirectURI q \<noteq> '''' \<longrightarrow>
      (let r = GetNginxAuthorize c \<lparr>CallbackURL = GetNginxRedirectURI q\<rparr>
                 (AuthUser.ID user) str now db
       in Login c q user str uuid now db =
            ((if snd (snd (fst r)) = None then fst (fst r) else '''', snd (fst r)), snd r)))
   \<and> (\<not> (GetResponseType q \<noteq> '''' \<and> GetClientId q \<noteq> '''' \<and> GetRedirectURI q \<noteq> '''')
        \<and> GetService q = '''' \<and> GetSAMLRequest q = '''' \<and> GetNginxRedirectURI q = '''' \<longrightarrow>
      Login c q user str uuid now db = (('''', '''', None), db))"
  by (auto simp: Login_def Let_def split: prod.splits option.splits)

lemma example_hex: "EncodeToString [13] = ''0d''"
  by (simp add: EncodeToString_def hextable_def)

lemma example_callback_no_query: "\<not> Contains ''https://app/cb'' ''?''"
  unfolding Contains_def by code_simp

lemma GetSPAuthorize_idp_NameIdentifier:
  "NameIdentifier (GetSPAuthorize_idp c requestData site userinfo uuid) =
     (if Contains (Address site) ''awsapps'' then UserInfoWithMenu.Email userinfo
      else if HasPrefix (Issuer_Value requestData) ''https://signin.aliyun.com''
      then UserInfoWithMenu.Username userinfo @ ''@'' @ DomainId site
      else UserInfoWithMenu.Username userinfo)"
  by (simp add: GetSPAuthorize_idp_def Let_def AddAttribute_def)

lemma GetSPAuthorize_idp_NameIdentifierFormat:
  "NameIdentifierFormat (GetSPAuthorize_idp c requestData site userinfo uuid) =
     (if Contains (Address site) ''awsapps'' then NameIdFormatEmailAddress
      else NameIdFormatUnspecified)"
  by (simp add: GetSPAuthorize_idp_def Let_def AddAttribute_def)

lemma example_address_not_aws: "\<not> Contains ''https://app'' ''awsapps''"
  unfolding Contains_def by code_simp

lemma example_issuer_aliyun:
  "HasPrefix ''https://signin.aliyun.com/x'' ''https://signin.aliyun.com''"
  unfolding HasPrefix_def by code_simp

lemma decimal_100: "Sprintf_d 100 = ''100''"
  by (simp add: Sprintf_d_def decimal.simps digit_char_def)

theorem Login_first_match_witness:
  "Login example_collaborators
      (example_params\<lparr>GetResponseType := ''code'', GetClientId := ''demo'',
         GetRedirectURI := ''https://app/cb'', GetState := ''x'', GetService := ''demo'',
         GetSAMLRequest := ''https://signin.aliyun.com/x'', GetNginxRedirectURI := ''demo''\<rparr>)
      example_auth_user ''r4nd'' ''uuid'' 100 empty_database =
     ((''https://app/cb?code=dn4r&state=x'', ''demo'', None),
      empty_database\<lparr>sso_oauth_ticket :=
        [\<lparr>SsoOAuthTicket.ID = 1, SsoOAuthTicket.Code = ''r4nd'',
          SsoOAuthTicket.RedirectURI = ''https://app/cb'', SsoOAuthTicket.UserID = 7,
          SsoOAuthTicket.ExpiresAt = 110, SsoOAuthTicket.ConsumedAt = None,
          SsoOAuthTicket.Nonce = Some ''''\<rparr>]\<rparr>)
   \<and> Login example_collaborators
      (example_params\<lparr>GetResponseType := ''code'', GetClientId := ''demo'',
         GetService := ''demo'',
         GetSAMLRequest := ''https://signin.aliyun.com/x'', GetNginxRedirectURI := ''demo''\<rparr>)
      example_auth_user ''r4nd'' ''uuid'' 100 empty_database =
     ((''https://app/cb?ticket=ST-100-carol-0d'', ''demo'', None),
      empty_database\<lparr>sso_cas_ticket :=
        [\<lparr>SsoCASTicket.ID = 1, SsoCASTicket.Ticket = ''ST-100-carol-0d'',
          SsoCASTicket.Service = ''https://app/cb'', SsoCASTicket.UserID = 7,
          SsoCASTicket.ExpiresAt = 110, SsoCASTicket.ConsumedAt = None\<rparr>]\<rparr>)
   \<and> Login example_collaborators
      (example_params\<lparr>GetSAMLRequest := ''https://signin.aliyun.com/x'',
         GetNginxRedirectURI := ''demo''\<rparr>)
      example_auth_user ''r4nd'' ''uuid'' 100 empty_database =
     ((''<Response>carol@123'', ''demo'', None), empty_database)
   \<and> Login example_collaborators (example_params\<lparr>GetNginxRedirectURI := ''closed''\<rparr>)
      example_auth_user ''r4nd'' ''uuid'' 100 empty_database =
     (('''', ''closed'', Some (ErrorsNew msg_access_denied)), empty_database)
   \<and> Login example_collaborators example_params
      example_auth_user ''r4nd'' ''uuid'' 100 empty_database =
     (('''', '''', None), empty_database)"
proof -
  let ?c = example_collaborators and ?u = example_auth_user
  have e1: "GetOAuthAuthorize ?c
        \<lparr>ResponseType = ''code'', OAuthAuthorize.ClientId = ''demo'',
         OAuthAuthorize.RedirectURI = ''https://app/cb'', State = ''x'',
         OAuthAuthorize.Scope = '''', OAuthAuthorize.Nonce = ''''\<rparr>
        7 ''r4nd'' 100 empty_database =
     ((''https://app/cb?code=dn4r&state=x'', ''demo'', None),
      empty_database\<lparr>sso_oauth_ticket :=
        [\<lparr>SsoOAuthTicket.ID = 1, SsoOAuthTicket.Code = ''r4nd'',
          SsoOAuthTicket.RedirectURI = ''https://app/cb'', SsoOAuthTicket.UserID = 7,
          SsoOAuthTicket.ExpiresAt = 110, SsoOAuthTicket.ConsumedAt = None,
          SsoOAuthTicket.Nonce = Some ''''\<rparr>]\<rparr>)"
    by (simp add: GetOAuthAuthorize_def example_collaborators_def example_lookup_def
          example_site_def CreateAuthorizeCode_def empty_database_def
          example_callback_no_query)
  have e2: "GetCASAuthorize ?c \<lparr>CASAuthorize.Service = ''demo''\<rparr> 7 ''carol'' 100
        empty_database =
     ((''https://app/cb?ticket=ST-100-carol-0d'', ''demo'', None),
      empty_database\<lparr>sso_cas_ticket :=
        [\<lparr>SsoCASTicket.ID = 1, SsoCASTicket.Ticket = ''ST-100-carol-0d'',
          SsoCASTicket.Service = ''https://app/cb'', SsoCASTicket.UserID = 7,
          SsoCASTicket.ExpiresAt = 110, SsoCASTicket.ConsumedAt = None\<rparr>]\<rparr>)"
    by (simp add: GetCASAuthorize_def example_collaborators_def example_lookup_def
          example_site_def decimal_100 example_hex CreateAuthorizeTicket_def
          empty_database_def example_callback_no_query Let_def)
  have e3: "GetSPAuthorize ?c
        \<lparr>SAMLRequest.SAMLRequest = ''https://signin.aliyun.com/x'',
         SAMLRequest.RelayState = '''', SigAlg = '''', Signature = ''''\<rparr> 7 ''uuid'' =
     (''<Response>carol@123'', ''demo'', None)"
    by (simp add: GetSPAuthorize_def GetSPAuthorize_respond_def
          GetSPAuthorize_idp_NameIdentifier example_address_not_aws example_issuer_aliyun
          example_collaborators_def example_lookup_def example_site_def example_user_def)
  have e4: "GetNginxAuthorize ?c \<lparr>CallbackURL = ''closed''\<rparr> 7 ''r4nd'' 100 empty_database =
     (('''', ''closed'', Some (ErrorsNew msg_access_denied)), empty_database)"
    by (simp add: GetNginxAuthorize_def example_collaborators_def example_lookup_def
          example_site_def closed_site_def)
  have 1: "Login ?c
      (example_params\<lparr>GetResponseType := ''code'', GetClientId := ''demo'',
         GetRedirectURI := ''https://app/cb'', GetState := ''x'', GetService := ''demo'',
         GetSAMLRequest := ''https://signin.aliyun.com/x'', GetNginxRedirectURI := ''demo''\<rparr>)
      ?u ''r4nd'' ''uuid'' 100 empty_database =
     ((''https://app/cb?code=dn4r&state=x'', ''demo'', None),
      empty_database\<lparr>sso_oauth_ticket :=
        [\<lparr>SsoOAuthTicket.ID = 1, SsoOAuthTicket.Code = ''r4nd'',
          SsoOAuthTicket.RedirectURI = ''https://app/cb'', SsoOAuthTicket.UserID = 7,
          SsoOAuthTicket.ExpiresAt = 110, SsoOAuthTicket.ConsumedAt = None,
          SsoOAuthTicket.Nonce = Some ''''\<rparr>]\<rparr>)"
    using Login_first_match[of "example_params\<lparr>GetResponseType := ''code'',
         GetClientId := ''demo'',
         GetRedirectURI := ''https://app/cb'', GetState := ''x'', GetService := ''demo'',
         GetSAMLRequest := ''https://signin.aliyun.com/x'', GetNginxRedirectURI := ''demo''\<rparr>"
         ?c ?u "''r4nd''" 100 empty_database "''uuid''"] e1
    by (simp add: example_params_def example_auth_user_def)
  have 2: "Login ?c
      (example_params\<lparr>GetResponseType := ''code'', GetClientId := ''demo'',
         GetService := ''demo'',
         GetSAMLRequest := ''https://signin.aliyun.com/x'', GetNginxRedirectURI := ''demo''\<rparr>)
      ?u ''r4nd'' ''uuid'' 100 empty_database =
     ((''https://app/cb?ticket=ST-100-carol-0d'', ''demo'', None),
      empty_database\<lparr>sso_cas_ticket :=
        [\<lparr>SsoCASTicket.ID = 1, SsoCASTicket.Ticket = ''ST-100-carol-0d'',
          SsoCASTicket.Service = ''https://app/cb'', SsoCASTicket.UserID = 7,
          SsoCASTicket.ExpiresAt = 110, SsoCASTicket.ConsumedAt = None\<rparr>]\<rparr>)"
    using Login_first_match[of "example_params\<lparr>GetResponseType := ''code'',
         GetClientId := ''demo'', GetService := ''demo'',
         GetSAMLRequest := ''https://signin.aliyun.com/x'', GetNginxRedirectURI := ''demo''\<rparr>"
         ?c ?u "''r4nd''" 100 empty_database "''uuid''"] e2
    by (simp add: example_params_def example_auth_user_def)
  have 3: "Login ?c
      (example_params\<lparr>GetSAMLRequest := ''https://signin.aliyun.com/x'',
         GetNginxRedirectURI := ''demo''\<rparr>)
      ?u ''r4nd'' ''uuid'' 100 empty_database =
     ((''<Response>carol@123'', ''demo'', None), empty_database)"
    using Login_first_match[of "example_params\<lparr>GetSAMLRequest := ''https://signin.aliyun.com/x'',
         GetNginxRedirectURI := ''demo''\<rparr>"
         ?c ?u "''r4nd''" 100 empty_database "''uuid''"] e3
    by (simp add: example_params_def example_auth_user_def)
  have 4: "Login ?c (example_params\<lparr>GetNginxRedirectURI := ''closed''\<rparr>)
      ?u ''r4nd'' ''uuid'' 100 empty_database =
     (('''', ''closed'', Some (ErrorsNew msg_access_denied)), empty_database)"
    using Login_first_match[of "example_params\<lparr>GetNginxRedirectURI := ''closed''\<rparr>"
         ?c ?u "''r4nd''" 100 empty_database "''uuid''"] e4
    by (simp add: example_params_def example_auth_user_def)
  have 5: "Login ?c example_params ?u ''r4nd'' ''uuid'' 100 empty_database =
     (('''', '''', None), empty_database)"
    using Login_first_match[of example_params ?c ?u "''r4nd''" 100 empty_database "''uuid''"]
    by (simp add: example_params_def)
  from 1 2 3 4 5 show ?thesis by (intro conjI)
qed

subsection \<open>Access enforcement\<close>

text \<open>
  Claim C5. When the site an engine resolves is not open to all and the subject is not
  among its members, each of the four engines (OAuth, CAS, Nginx, SAML) returns an empty
  result, the name of the site and the access-denied error, and leaves the database as it
  was: no ticket row is inserted. (The SAML engine resolves its site from the issuer of
  the parsed request, and never writes a ticket.)
\<close>

theorem access_denied_no_ticket:
  "(GetOAuthSite c (OAuthAuthorize.ClientId odata) = Inr site
      \<and> \<not> AllOpen site \<and> \<not> IsUserInSite c userId site \<longrightarrow>
      GetOAuthAuthorize c odata userId str now db =
        (('''', Site.Name site, Some (ErrorsNew msg_access_denied)), db))
   \<and> (GetCASSite c (CASAuthorize.Service cdata) = Inr site
      \<and> \<not> AllOpen site \<and> \<not> IsUserInSite c userId site \<longrightarrow>
      GetCASAuthorize c cdata userId username now db =
        (('''', Site.Name site, Some (ErrorsNew msg_access_denied)), db))
   \<and> (GetNginxSite c (CallbackURL ndata) = Inr site
      \<and> \<not> AllOpen site \<and> \<not> IsUserInSite c userId site \<longrightarrow>
      GetNginxAuthorize c ndata userId str now db =
        (('''', Site.Name site, Some (ErrorsNew msg_access_denied)), db))
   \<and> (ParseSAMLRequest c (SAMLRequest.SAMLRequest sdata) = Inr requestData
      \<and> GetSamlSite c (Issuer_Value requestData) = Inr site
      \<and> \<not> AllOpen site \<and> \<not> IsUserInSite c userId site \<longrightarrow>
      GetSPAuthorize c sdata userId uuid =
        ('''', Site.Name site, Some (ErrorsNew msg_access_denied)))"
  by (simp add: GetOAuthAuthorize_def GetCASAuthorize_def GetNginxAuthorize_def
        GetSPAuthorize_def)

theorem access_denied_no_ticket_witness:
  "GetOAuthAuthorize example_collaborators
      \<lparr>ResponseType = ''code'', OAuthAuthorize.ClientId = ''closed'',
       OAuthAuthorize.RedirectURI = ''https://app/cb'', State = ''x'',
       OAuthAuthorize.Scope = ''openid'', OAuthAuthorize.Nonce = ''n1''\<rparr>
      7 ''r4nd'' 100 example_database =
     (('''', ''closed'', Some (ErrorsNew msg_access_denied)), example_database)
   \<and> GetCASAuthorize example_collaborators \<lparr>CASAuthorize.Service = ''closed''\<rparr>
      7 ''carol'' 100 example_database =
     (('''', ''closed'', Some (ErrorsNew msg_access_denied)), example_database)
   \<and> GetNginxAuthorize example_collaborators \<lparr>CallbackURL = ''closed''\<rparr>
      7 ''r4nd'' 100 example_database =
     (('''', ''closed'', Some (ErrorsNew msg_access_denied)), example_database)
   \<and> GetSPAuthorize example_collaborators
      \<lparr>SAMLRequest.SAMLRequest = ''closed'', SAMLRequest.RelayState = '''',
       SigAlg = '''', Signature = ''''\<rparr> 7 ''uuid'' =
     ('''', ''closed'', Some (ErrorsNew msg_access_denied))"
  using access_denied_no_ticket[of example_collaborators
      "\<lparr>ResponseType = ''code'', OAuthAuthorize.ClientId = ''closed'',
       OAuthAuthorize.RedirectURI = ''https://app/cb'', State = ''x'',
       OAuthAuthorize.Scope = ''openid'', OAuthAuthorize.Nonce = ''n1''\<rparr>"
      closed_site 7 "''r4nd''" 100 example_database
      "\<lparr>CASAuthorize.Service = ''closed''\<rparr>" "''carol''"
      "\<lparr>CallbackURL = ''closed''\<rparr>"
      "\<lparr>SAMLRequest.SAMLRequest = ''closed'', SAMLRequest.RelayState = '''',
       SigAlg = '''', Signature = ''''\<rparr>"
      "\<lparr>Issuer_Value = ''closed'', AssertionConsumerServiceURL = ''https://sp/acs''\<rparr>"
      "''uuid''"]
  by (simp add: example_collaborators_def example_lookup_def closed_site_def example_site_def)

subsection \<open>The SAML name identifier\<close>

lemma aws_address_contains: "Contains ''https://d-1.awsapps.com/start'' ''awsapps''"
  unfolding Contains_def by code_simp

text \<open>
  Claim C8 as stated fails: the AWS setting runs after the Aliyun one and overrides the
  name identifier and its format whenever the site address contains \<open>awsapps\<close>, also for
  an Aliyun entity id. For the subject \<open>carol\<close> and a site with domain id \<open>123\<close> whose
  address is an AWS access portal, the identity provider value is configured with her
  e-mail address in the e-mail format, not with \<open>carol@123\<close>.
\<close>

theorem aliyun_name_id_counterexample:
  "HasPrefix (Issuer_Value aliyun_request) ''https://signin.aliyun.com''
   \<and> NameIdentifier (GetSPAuthorize_idp example_collaborators aliyun_request
         aws_addressed_site example_user ''uuid'') = ''carol@example.org''
   \<and> NameIdentifier (GetSPAuthorize_idp example_collaborators aliyun_request
         aws_addressed_site example_user ''uuid'')
       \<noteq> UserInfoWithMenu.Username example_user @ ''@'' @ DomainId aws_addressed_site
   \<and> NameIdentifierFormat (GetSPAuthorize_idp example_collaborators aliyun_request
         aws_addressed_site example_user ''uuid'') = NameIdFormatEmailAddress"
  by (simp add: GetSPAuthorize_idp_NameIdentifier GetSPAuthorize_idp_NameIdentifierFormat
        aliyun_request_def aws_addressed_site_def example_site_def example_user_def
        aws_address_contains example_issuer_aliyun)

text \<open>
  Claim C8, amended. For a request whose entity id starts with
  \<open>https://signin.aliyun.com\<close> and a site whose address does not contain \<open>awsapps\<close>,
  the identity provider value from which the response is issued has the name identifier
  \<open>username@domain_id\<close> in the unspecified format. When the address contains
  \<open>awsapps\<close> the name identifier is the e-mail address, in the e-mail format.
\<close>

theorem aliyun_name_id:
  "(HasPrefix (Issuer_Value requestData) ''https://signin.aliyun.com''
      \<and> \<not> Contains (Address site) ''awsapps'' \<longrightarrow>
      NameIdentifier (GetSPAuthorize_idp c requestData site userinfo uuid) =
        UserInfoWithMenu.Username userinfo @ ''@'' @ DomainId site
      \<and> NameIdentifierFormat (GetSPAuthorize_idp c requestData site userinfo uuid) =
        NameIdFormatUnspecified)
   \<and> (Contains (Address site) ''awsapps'' \<longrightarrow>
      NameIdentifier (GetSPAuthorize_idp c requestData site userinfo uuid) =
        UserInfoWithMenu.Email userinfo
      \<and> NameIdentifierFormat (GetSPAuthorize_idp c requestData site userinfo uuid) =
        NameIdFormatEmailAddress)"
  by (simp add: GetSPAuthorize_idp_NameIdentifier GetSPAuthorize_idp_NameIdentifierFormat)

theorem aliyun_name_id_witness:
  "HasPrefix (Issuer_Value aliyun_request) ''https://signin.aliyun.com''
   \<and> \<not> Contains (Address example_site) ''awsapps''
   \<and> NameIdentifier (GetSPAuthorize_idp example_collaborators aliyun_request
         example_site example_user ''uuid'') = ''carol@123''
   \<and> NameIdentifierFormat (GetSPAuthorize_idp example_collaborators aliyun_request
         example_site example_user ''uuid'') = NameIdFormatUnspecified
   \<and> Contains (Address aws_addressed_site) ''awsapps''
   \<and> NameIdentifier (GetSPAuthorize_idp example_collaborators aliyun_request
         aws_addressed_site example_user ''uuid'') = ''carol@example.org''"
proof -
  have p: "HasPrefix (Issuer_Value aliyun_request) ''https://signin.aliyun.com''"
    by (simp add: aliyun_request_def example_issuer_aliyun)
  have n: "\<not> Contains (Address example_site) ''awsapps''"
    by (simp add: example_site_def example_address_not_aws)
  have a: "Contains (Address aws_addressed_site) ''awsapps''"
    by (simp add: aws_addressed_site_def aws_address_contains)
  show ?thesis
    using p n a
      aliyun_name_id[of aliyun_request example_site example_collaborators example_user "''uuid''"]
      aliyun_name_id[of aliyun_request aws_addressed_site example_collaborators example_user
        "''uuid''"]
    by (simp add: example_user_def example_site_def aws_addressed_site_def)
qed

subsection \<open>The logout handler\<close>

lemma SplitN2_length: "length (SplitN2 s sep) = (if sep \<in> set s then 2 else 1)"
  by (simp add: SplitN2_def)

text \<open>
  Claim C9. \<open>Logout\<close> splits the \<open>Authorization\<close> header at its first space and
  indexes the second part without a check: for every header value with no space, the
  empty value of an absent header included, the handler panics with an index out of
  range and gives no reply. (With a space in the value it does reply.)
\<close>

theorem Logout_panics_without_space:
  "(CHR '' '' \<notin> set token \<longrightarrow> Logout RedisSet token = Panicked IndexOutOfRange)
   \<and> Logout RedisSet '''' = Panicked IndexOutOfRange
   \<and> (CHR '' '' \<in> set token \<longrightarrow> (\<exists>r. Logout RedisSet token = Returned r))"
  by (auto simp: Logout_def SplitN2_length Let_def split: option.splits)

theorem Logout_panics_without_space_witness:
  "CHR '' '' \<notin> set ''Bearer''
   \<and> Logout (\<lambda>key. None) ''Bearer'' = Panicked IndexOutOfRange
   \<and> Logout (\<lambda>key. None) '''' = Panicked IndexOutOfRange
   \<and> CHR '' '' \<in> set ''Bearer abc''
   \<and> (\<exists>r. Logout (\<lambda>key. None) ''Bearer abc'' = Returned r)"
  using Logout_panics_without_space[of "''Bearer''" "\<lambda>key. None"]
    Logout_panics_without_space[of "''Bearer abc''" "\<lambda>key. None"]
  by simp

subsection \<open>The token endpoint\<close>

lemma example_code_lookup:
  "GetAuthorizeCode ''c1'' 5 example_database =
     (Inr example_oauth_ticket,
      example_database\<lparr>sso_oauth_ticket := [example_oauth_ticket]\<rparr>)"
  by (simp add: GetAuthorizeCode_def First_def UpdateConsumedAtCode_def example_database_def
        example_oauth_ticket_def)

text \<open>
  Claim C10. \<open>GetToken\<close> uses the string \<open>Decrypt\<close> returns whatever its error is, and
  does not check the error of the user lookup: when the site exists, the secret matches
  and the code resolves to a live ticket, but the lookup of the ticket's user fails, the
  nil user is dereferenced and the call panics instead of returning an error. The ticket
  has been consumed by then.
\<close>

theorem GetToken_nil_user_panics:
  "(GetOAuthSite c (Token.ClientId param) = Inr site
      \<and> Site.ClientSecret site = Token.ClientSecret param
      \<and> GetAuthorizeCode (fst (Decrypt c (Token.Code param))) now db = (Inr ticket, db')
      \<and> GetUserInfo c (SsoOAuthTicket.UserID ticket) = Inl e \<longrightarrow>
      GetToken c param now db = (Panicked NilPointerDereference, db'))
   \<and> GetToken (c\<lparr>Decrypt := (\<lambda>s. (fst (Decrypt c s), err))\<rparr>) param now db =
       GetToken c param now db"
  by (auto simp: GetToken_def Let_def split: sum.splits prod.splits option.splits)

theorem GetToken_nil_user_panics_witness:
  "GetOAuthSite collaborators_without_users (Token.ClientId example_token_request)
     = Inr example_site
   \<and> Site.ClientSecret example_site = Token.ClientSecret example_token_request
   \<and> GetAuthorizeCode
        (fst (Decrypt collaborators_without_users (Token.Code example_token_request)))
        5 example_database =
       (Inr example_oauth_ticket,
        example_database\<lparr>sso_oauth_ticket := [example_oauth_ticket]\<rparr>)
   \<and> GetUserInfo collaborators_without_users (SsoOAuthTicket.UserID example_oauth_ticket)
     = Inl ErrRecordNotFound
   \<and> GetToken collaborators_without_users example_token_request 5 example_database =
       (Panicked NilPointerDereference,
        example_database\<lparr>sso_oauth_ticket := [example_oauth_ticket]\<rparr>)"
proof -
  let ?c = collaborators_without_users
  have s: "GetOAuthSite ?c (Token.ClientId example_token_request) = Inr example_site"
    by (simp add: collaborators_without_users_def example_collaborators_def
          example_token_request_def example_lookup_def)
  have k: "Site.ClientSecret example_site = Token.ClientSecret example_token_request"
    by (simp add: example_site_def example_token_request_def)
  have d: "fst (Decrypt ?c (Token.Code example_token_request)) = ''c1''"
    by (simp add: collaborators_without_users_def example_collaborators_def
          example_token_request_def)
  have u: "GetUserInfo ?c (SsoOAuthTicket.UserID example_oauth_ticket) = Inl ErrRecordNotFound"
    by (simp add: collaborators_without_users_def)
  show ?thesis
    using s k u example_code_lookup d
      GetToken_nil_user_panics[of ?c example_token_request example_site 5 example_database
        example_oauth_ticket "example_database\<lparr>sso_oauth_ticket := [example_oauth_ticket]\<rparr>"
        ErrRecordNotFound None]
    by simp
qed

text \<open>
  Claim C6 as stated fails: with the site found, the secret matching and the code
  resolving to a live ticket, \<open>GetToken\<close> still checks the error of the token signer
  and returns that error, with no response, when signing fails.
\<close>

theorem GetToken_response_counterexample:
  "GetOAuthSite collaborators_without_key (Token.ClientId example_token_request)
     = Inr example_site
   \<and> Site.ClientSecret example_site = Token.ClientSecret example_token_request
   \<and> GetAuthorizeCode
        (fst (Decrypt collaborators_without_key (Token.Code example_token_request)))
        5 example_database =
       (Inr example_oauth_ticket,
        example_database\<lparr>sso_oauth_ticket := [example_oauth_ticket]\<rparr>)
   \<and> GetToken collaborators_without_key example_token_request 5 example_database =
       (Returned (None, Some (CollaboratorError ''no key'')),
        example_database\<lparr>sso_oauth_ticket := [example_oauth_ticket]\<rparr>)"
proof -
  let ?c = collaborators_without_key
  have s: "GetOAuthSite ?c (Token.ClientId example_token_request) = Inr example_site"
    by (simp add: collaborators_without_key_def example_collaborators_def
          example_token_request_def example_lookup_def)
  have k: "Site.ClientSecret example_site = Token.ClientSecret example_token_request"
    by (simp add: example_site_def example_token_request_def)
  have d: "fst (Decrypt ?c (Token.Code example_token_request)) = ''c1''"
    by (simp add: collaborators_without_key_def example_collaborators_def
          example_token_request_def)
  have u: "GetUserInfo ?c 7 = Inr example_user"
    by (simp add: collaborators_without_key_def example_collaborators_def)
  have g: "GenerateOAuthToken ?c a b e f g h = ('''', Some (CollaboratorError ''no key''))"
    for a b e f g h
    by (simp add: collaborators_without_key_def)
  have "GetToken ?c example_token_request 5 example_database =
       (Returned (None, Some (CollaboratorError ''no key'')),
        example_database\<lparr>sso_oauth_ticket := [example_oauth_ticket]\<rparr>)"
    using s k d u example_code_lookup
    by (simp add: GetToken_def g example_oauth_ticket_def)
  with s k d example_code_lookup show ?thesis by simp
qed

text \<open>
  Claim C6, amended. On a token exchange where the site exists, the secret matches, the
  decrypted code resolves to a live unconsumed ticket that carries a nonce, the user of
  the ticket is found and the token is signed without an error, \<open>GetToken\<close> returns a
  response whose \<open>id_token\<close> and \<open>access_token\<close> are the same signed token, whose type is
  \<open>bearer\<close>, whose lifetime is 3600 and whose scope is \<open>openid\<close>, with a nil error;
  every response it ever returns has this shape; when signing fails, it returns the
  error of the signer and no response.
\<close>

theorem GetToken_response:
  "(GetOAuthSite c (Token.ClientId param) = Inr site
      \<and> Site.ClientSecret site = Token.ClientSecret param
      \<and> GetAuthorizeCode (fst (Decrypt c (Token.Code param))) now db = (Inr ticket, db')
      \<and> GetUserInfo c (SsoOAuthTicket.UserID ticket) = Inr user
      \<and> SsoOAuthTicket.Nonce ticket = Some nonce
      \<and> GenerateOAuthToken c (UserInfoWithMenu.ID user) (UserInfoWithMenu.Name user)
            (UserInfoWithMenu.Username user) (Site.ClientId site) ''readwrite'' nonce
          = (jwt, None) \<longrightarrow>
      GetToken c param now db =
        (Returned (Some \<lparr>IdToken = jwt, AccessToken = jwt, TokenType = ''bearer'',
                          ExpiresIn = 3600, RefreshToken = '''',
                          ResponseToken.Scope = ''openid''\<rparr>, None), db'))
   \<and> (GetToken c param now db = (Returned (Some token, err), db2) \<longrightarrow>
        err = None \<and> IdToken token = AccessToken token \<and> TokenType token = ''bearer''
        \<and> ExpiresIn token = 3600 \<and> ResponseToken.Scope token = ''openid'')
   \<and> (GetOAuthSite c (Token.ClientId param) = Inr site
      \<and> Site.ClientSecret site = Token.ClientSecret param
      \<and> GetAuthorizeCode (fst (Decrypt c (Token.Code param))) now db = (Inr ticket, db')
      \<and> GetUserInfo c (SsoOAuthTicket.UserID ticket) = Inr user
      \<and> SsoOAuthTicket.Nonce ticket = Some nonce
      \<and> GenerateOAuthToken c (UserInfoWithMenu.ID user) (UserInfoWithMenu.Name user)
            (UserInfoWithMenu.Username user) (Site.ClientId site) ''readwrite'' nonce
          = (jwt, Some serr) \<longrightarrow>
      GetToken c param now db = (Returned (None, Some serr), db'))"
proof -
  have shape: "GetToken c param now db = (Returned (Some token, err), db2) \<longrightarrow>
        err = None \<and> IdToken token = AccessToken token \<and> TokenType token = ''bearer''
        \<and> ExpiresIn token = 3600 \<and> ResponseToken.Scope token = ''openid''"
    by (auto simp: GetToken_def Let_def
          split: sum.splits prod.splits option.splits if_splits)
  show ?thesis
    using shape by (simp add: GetToken_def)
qed

theorem GetToken_response_witness:
  "GetOAuthSite example_collaborators (Token.ClientId example_token_request)
     = Inr example_site
   \<and> Site.ClientSecret example_site = Token.ClientSecret example_token_request
   \<and> GetAuthorizeCode
        (fst (Decrypt example_collaborators (Token.Code example_token_request)))
        5 example_database =
       (Inr example_oauth_ticket,
        example_database\<lparr>sso_oauth_ticket := [example_oauth_ticket]\<rparr>)
   \<and> GetUserInfo example_collaborators (SsoOAuthTicket.UserID example_oauth_ticket)
     = Inr example_user
   \<and> GetToken example_collaborators example_token_request 5 example_database =
       (Returned (Some \<lparr>IdToken = ''jwt.carol.demo.n1'', AccessToken = ''jwt.carol.demo.n1'',
                         TokenType = ''bearer'', ExpiresIn = 3600, RefreshToken = '''',
                         ResponseToken.Scope = ''openid''\<rparr>, None),
        example_database\<lparr>sso_oauth_ticket := [example_oauth_ticket]\<rparr>)"
proof -
  let ?c = example_collaborators
  have s: "GetOAuthSite ?c (Token.ClientId example_token_request) = Inr example_site"
    by (simp add: example_collaborators_def example_token_request_def example_lookup_def)
  have k: "Site.ClientSecret example_site = Token.ClientSecret example_token_request"
    by (simp add: example_site_def example_token_request_def)
  have d: "fst (Decrypt ?c (Token.Code example_token_request)) = ''c1''"
    by (simp add: example_collaborators_def example_token_request_def)
  have u: "GetUserInfo ?c (SsoOAuthTicket.UserID example_oauth_ticket) = Inr example_user"
    by (simp add: example_collaborators_def example_oauth_ticket_def)
  have n: "SsoOAuthTicket.Nonce example_oauth_ticket = Some ''n1''"
    by (simp add: example_oauth_ticket_def)
  have g: "GenerateOAuthToken ?c (UserInfoWithMenu.ID example_user)
            (UserInfoWithMenu.Name example_user) (UserInfoWithMenu.Username example_user)
            (Site.ClientId example_site) ''readwrite'' ''n1'' = (''jwt.carol.demo.n1'', None)"
    by (simp add: example_collaborators_def example_user_def example_site_def)
  show ?thesis
    using s k d u n g example_code_lookup
      GetToken_response[of ?c example_token_request example_site 5 example_database
        example_oauth_ticket "example_database\<lparr>sso_oauth_ticket := [example_oauth_ticket]\<rparr>"
        example_user "''n1''" "''jwt.carol.demo.n1''"]
    by simp
qed

subsection \<open>CAS ticket validation\<close>

lemma example_ticket_lookup:
  "GetAuthorizeTicket ''ST-0-bob-09'' 5 example_database =
     (Inr example_cas_ticket, example_database\<lparr>sso_cas_ticket := [example_cas_ticket]\<rparr>)"
  by (simp add: GetAuthorizeTicket_def First_def UpdateConsumedAtTicket_def
        example_database_def example_cas_ticket_def)

lemma example_ticket_parts: "Split ''ST-0-bob-09'' CHR ''-'' = [''ST'', ''0'', ''bob'', ''09'']"
  by simp

lemma example_ticket_hex: "EncodeToString [9] = ''09''"
  by (simp add: EncodeToString_def hextable_def)

lemma example_validate_result:
  "ServiceValidate example_collaborators example_validate_request 5 example_database =
     (Inl ErrRecordNotFound, example_database\<lparr>sso_cas_ticket := [example_cas_ticket]\<rparr>)"
proof -
  let ?c = example_collaborators
  have s: "GetCASSite ?c ''demo'' = Inr example_site"
    by (simp add: example_collaborators_def example_lookup_def)
  have h: "hmac_sha256 ?c (secret ?c) ''ST-0-bob'' = [9]"
    by (simp add: example_collaborators_def)
  have u: "GetUserInfo ?c 8 = Inl ErrRecordNotFound"
    by (simp add: example_collaborators_def)
  show ?thesis
    using s h u
    by (simp add: ServiceValidate_def example_validate_request_def example_ticket_lookup
          example_ticket_parts example_ticket_hex example_cas_ticket_def)
qed

text \<open>
  Claim C7 as stated fails: after the site, the ticket, its four parts and its signature
  have been accepted, \<open>ServiceValidate\<close> looks the user of the ticket up and returns the
  error of that lookup as it is. For a live, well-signed ticket whose user is gone, the
  error is the lookup's record-not-found, neither of the two messages.
\<close>

theorem ServiceValidate_errors_counterexample:
  "ServiceValidate example_collaborators example_validate_request 5 example_database =
     (Inl ErrRecordNotFound, example_database\<lparr>sso_cas_ticket := [example_cas_ticket]\<rparr>)
   \<and> ErrRecordNotFound \<noteq> ErrorsNew ''service string is invalid''
   \<and> ErrRecordNotFound \<noteq> ErrorsNew ''ticket string is invalid''"
  by (simp add: example_validate_result)

text \<open>
  Claim C7, amended. \<open>ServiceValidate\<close> returns exactly \<open>service string is invalid\<close>
  when the site lookup fails, and exactly \<open>ticket string is invalid\<close> when the ticket
  is missing, expired or consumed (its lookup fails), malformed (not four parts) or
  wrongly signed. Its only other failure is that of the final user lookup, whose own
  error it returns: every error it returns is one of these three.
\<close>

theorem ServiceValidate_errors:
  "(ServiceValidate c param now db = (Inl e, db') \<longrightarrow>
      (e = ErrorsNew ''service string is invalid''
         \<and> (\<exists>err. GetCASSite c (CASServiceValidate.Service param) = Inl err))
      \<or> e = ErrorsNew ''ticket string is invalid''
      \<or> (\<exists>t. fst (GetAuthorizeTicket (CASServiceValidate.Ticket param) now db) = Inr t
             \<and> GetUserInfo c (SsoCASTicket.UserID t) = Inl e))
   \<and> (GetCASSite c (CASServiceValidate.Service param) = Inl serr \<longrightarrow>
        ServiceValidate c param now db = (Inl (ErrorsNew ''service string is invalid''), db))
   \<and> (GetCASSite c (CASServiceValidate.Service param) = Inr site
        \<and> GetAuthorizeTicket (CASServiceValidate.Ticket param) now db = (Inl terr, db1) \<longrightarrow>
        ServiceValidate c param now db = (Inl (ErrorsNew ''ticket string is invalid''), db1))
   \<and> (GetCASSite c (CASServiceValidate.Service param) = Inr site
        \<and> GetAuthorizeTicket (CASServiceValidate.Ticket param) now db = (Inr t1, db1)
        \<and> length (Split (CASServiceValidate.Ticket param) CHR ''-'') \<noteq> 4 \<longrightarrow>
        ServiceValidate c param now db = (Inl (ErrorsNew ''ticket string is invalid''), db1))
   \<and> (GetCASSite c (CASServiceValidate.Service param) = Inr site
        \<and> GetAuthorizeTicket (CASServiceValidate.Ticket param) now db = (Inr t1, db1)
        \<and> Split (CASServiceValidate.Ticket param) CHR ''-'' = [p0, p1, p2, p3]
        \<and> EncodeToString (hmac_sha256 c (secret c) (p0 @ ''-'' @ p1 @ ''-'' @ p2)) \<noteq> p3
        \<longrightarrow>
        ServiceValidate c param now db = (Inl (ErrorsNew ''ticket string is invalid''), db1))"
proof -
  have a: "ServiceValidate c param now db = (Inl e, db') \<longrightarrow>
      (e = ErrorsNew ''service string is invalid''
         \<and> (\<exists>err. GetCASSite c (CASServiceValidate.Service param) = Inl err))
      \<or> e = ErrorsNew ''ticket string is invalid''
      \<or> (\<exists>t. fst (GetAuthorizeTicket (CASServiceValidate.Ticket param) now db) = Inr t
             \<and> GetUserInfo c (SsoCASTicket.UserID t) = Inl e)"
    by (auto simp: ServiceValidate_def Let_def split: sum.splits prod.splits if_splits)
  have b: "GetCASSite c (CASServiceValidate.Service param) = Inl serr \<longrightarrow>
        ServiceValidate c param now db = (Inl (ErrorsNew ''service string is invalid''), db)"
    by (simp add: ServiceValidate_def)
  have d: "GetCASSite c (CASServiceValidate.Service param) = Inr site
        \<and> GetAuthorizeTicket (CASServiceValidate.Ticket param) now db = (Inl terr, db1) \<longrightarrow>
        ServiceValidate c param now db = (Inl (ErrorsNew ''ticket string is invalid''), db1)"
    by (simp add: ServiceValidate_def)
  have f: "GetCASSite c (CASServiceValidate.Service param) = Inr site
        \<and> GetAuthorizeTicket (CASServiceValidate.Ticket param) now db = (Inr t1, db1)
        \<and> length (Split (CASServiceValidate.Ticket param) CHR ''-'') \<noteq> 4 \<longrightarrow>
        ServiceValidate c param now db = (Inl (ErrorsNew ''ticket string is invalid''), db1)"
    by (simp add: ServiceValidate_def Let_def)
  have g: "GetCASSite c (CASServiceValidate.Service param) = Inr site
        \<and> GetAuthorizeTicket (CASServiceValidate.Ticket param) now db = (Inr t1, db1)
        \<and> Split (CASServiceValidate.Ticket param) CHR ''-'' = [p0, p1, p2, p3]
        \<and> EncodeToString (hmac_sha256 c (secret c) (p0 @ ''-'' @ p1 @ ''-'' @ p2)) \<noteq> p3
        \<longrightarrow>
        ServiceValidate c param now db = (Inl (ErrorsNew ''ticket string is invalid''), db1)"
    by (simp add: ServiceValidate_def Let_def)
  from a b d f g show ?thesis by (intro conjI)
qed
theorem ServiceValidate_errors_witness:
  "ServiceValidate example_collaborators
      \<lparr>CASServiceValidate.Service = ''unknown'', CASServiceValidate.Ticket = ''ST-0-bob-09''\<rparr>
      5 example_database =
     (Inl (ErrorsNew ''service string is invalid''), example_database)
   \<and> ServiceValidate example_collaborators
      \<lparr>CASServiceValidate.Service = ''demo'', CASServiceValidate.Ticket = ''ST-0-bob-09''\<rparr>
      10 example_database =
     (Inl (ErrorsNew ''ticket string is invalid''), example_database)
   \<and> fst (ServiceValidate example_collaborators
      \<lparr>CASServiceValidate.Service = ''demo'', CASServiceValidate.Ticket = ''ST-0-a-b-09''\<rparr>
      5 malformed_database) = Inl (ErrorsNew ''ticket string is invalid'')
   \<and> fst (ServiceValidate example_collaborators
      \<lparr>CASServiceValidate.Service = ''demo'', CASServiceValidate.Ticket = ''ST-0-bob-ff''\<rparr>
      5 malformed_database) = Inl (ErrorsNew ''ticket string is invalid'')
   \<and> fst (GetAuthorizeTicket (CASServiceValidate.Ticket example_validate_request) 5
          example_database) = Inr example_cas_ticket
   \<and> GetUserInfo example_collaborators (SsoCASTicket.UserID example_cas_ticket)
        = Inl ErrRecordNotFound
   \<and> fst (ServiceValidate example_collaborators example_validate_request 5 example_database)
        = Inl ErrRecordNotFound"
proof -
  let ?c = example_collaborators
  have s0: "GetCASSite ?c ''unknown'' = Inl ErrRecordNotFound"
    by (simp add: example_collaborators_def example_lookup_def)
  have s1: "GetCASSite ?c ''demo'' = Inr example_site"
    by (simp add: example_collaborators_def example_lookup_def)
  have 1: "ServiceValidate ?c
      \<lparr>CASServiceValidate.Service = ''unknown'', CASServiceValidate.Ticket = ''ST-0-bob-09''\<rparr>
      5 example_database =
     (Inl (ErrorsNew ''service string is invalid''), example_database)"
    using s0 ServiceValidate_errors[where c = "?c" and now = 5 and db = example_database
        and serr = ErrRecordNotFound
        and param = "\<lparr>CASServiceValidate.Service = ''unknown'',
                      CASServiceValidate.Ticket = ''ST-0-bob-09''\<rparr>",
      THEN conjunct2, THEN conjunct1]
    by simp
  have l2: "GetAuthorizeTicket ''ST-0-bob-09'' 10 example_database =
      (Inl ErrRecordNotFound, example_database)"
    by (simp add: GetAuthorizeTicket_def First_def example_database_def)
  have 2: "ServiceValidate ?c
      \<lparr>CASServiceValidate.Service = ''demo'', CASServiceValidate.Ticket = ''ST-0-bob-09''\<rparr>
      10 example_database =
     (Inl (ErrorsNew ''ticket string is invalid''), example_database)"
    using s1 l2 ServiceValidate_errors[where c = "?c" and now = 10 and db = example_database
        and site = example_site
        and terr = ErrRecordNotFound and ?db1.0 = example_database
        and param = "\<lparr>CASServiceValidate.Service = ''demo'',
                      CASServiceValidate.Ticket = ''ST-0-bob-09''\<rparr>",
      THEN conjunct2, THEN conjunct2, THEN conjunct1]
    by simp
  obtain t3 db3 where
    l3: "GetAuthorizeTicket ''ST-0-a-b-09'' 5 malformed_database = (Inr t3, db3)"
    by (simp add: GetAuthorizeTicket_def First_def UpdateConsumedAtTicket_def
          malformed_database_def empty_database_def)
  have p3: "length (Split ''ST-0-a-b-09'' CHR ''-'') \<noteq> 4" by simp
  have 3: "fst (ServiceValidate ?c
      \<lparr>CASServiceValidate.Service = ''demo'', CASServiceValidate.Ticket = ''ST-0-a-b-09''\<rparr>
      5 malformed_database) = Inl (ErrorsNew ''ticket string is invalid'')"
    using s1 l3 p3 ServiceValidate_errors[where c = "?c" and now = 5 and db = malformed_database
        and site = example_site
        and ?t1.0 = t3 and ?db1.0 = db3
        and param = "\<lparr>CASServiceValidate.Service = ''demo'',
                      CASServiceValidate.Ticket = ''ST-0-a-b-09''\<rparr>",
      THEN conjunct2, THEN conjunct2, THEN conjunct2, THEN conjunct1]
    by simp
  obtain t4 db4 where
    l4: "GetAuthorizeTicket ''ST-0-bob-ff'' 5 malformed_database = (Inr t4, db4)"
    by (simp add: GetAuthorizeTicket_def First_def UpdateConsumedAtTicket_def
          malformed_database_def empty_database_def)
  have p4: "Split ''ST-0-bob-ff'' CHR ''-'' = [''ST'', ''0'', ''bob'', ''ff'']" by simp
  have h4: "EncodeToString (hmac_sha256 ?c (secret ?c) (''ST'' @ ''-'' @ ''0'' @ ''-'' @ ''bob''))
              \<noteq> ''ff''"
    by (simp add: example_collaborators_def example_ticket_hex)
  have 4: "fst (ServiceValidate ?c
      \<lparr>CASServiceValidate.Service = ''demo'', CASServiceValidate.Ticket = ''ST-0-bob-ff''\<rparr>
      5 malformed_database) = Inl (ErrorsNew ''ticket string is invalid'')"
    using s1 l4 p4 h4 ServiceValidate_errors[where c = "?c" and now = 5 and db = malformed_database
        and site = example_site
        and ?t1.0 = t4 and ?db1.0 = db4
        and ?p0.0 = "''ST''" and ?p1.0 = "''0''" and ?p2.0 = "''bob''" and ?p3.0 = "''ff''"
        and param = "\<lparr>CASServiceValidate.Service = ''demo'',
                      CASServiceValidate.Ticket = ''ST-0-bob-ff''\<rparr>",
      THEN conjunct2, THEN conjunct2, THEN conjunct2, THEN conjunct2]
    by simp
  have 5: "fst (GetAuthorizeTicket (CASServiceValidate.Ticket example_validate_request) 5
          example_database) = Inr example_cas_ticket"
    by (simp add: example_validate_request_def example_ticket_lookup)
  have 6: "GetUserInfo ?c (SsoCASTicket.UserID example_cas_ticket) = Inl ErrRecordNotFound"
    by (simp add: example_collaborators_def example_cas_ticket_def)
  have 7: "fst (ServiceValidate ?c example_validate_request 5 example_database)
        = Inl ErrRecordNotFound"
    by (simp add: example_validate_result)
  from 1 2 3 4 5 6 7 show ?thesis by (intro conjI)
qed

subsection \<open>Splitting a ticket, decimal and hexadecimal digits\<close>

lemma Split_not_Nil: "Split s sep \<noteq> []"
  by (induction s) (auto split: list.splits)

lemma Split_length: "length (Split s sep) = Suc (length (filter (\<lambda>c. c = sep) s))"
proof (induction s)
  case Nil
  show ?case by simp
next
  case (Cons c cs)
  obtain p ps where "Split cs sep = p # ps"
    using Split_not_Nil[of cs sep] by (cases "Split cs sep") auto
  with Cons show ?case by auto
qed

lemma Split_no_sep: "sep \<notin> set a \<Longrightarrow> Split a sep = [a]"
  by (induction a) auto

lemma Split_append: "sep \<notin> set a \<Longrightarrow> Split (a @ sep # b) sep = a # Split b sep"
  by (induction a) auto

lemma digit_char_not_minus: "d < 10 \<Longrightarrow> digit_char d \<noteq> CHR ''-''"
proof -
  assume "d < 10"
  then have "''0123456789'' ! d \<in> set ''0123456789''" by (intro nth_mem) simp
  then show ?thesis unfolding digit_char_def by auto
qed

lemma decimal_no_minus: "CHR ''-'' \<notin> set (decimal n)"
proof (induction n rule: decimal.induct)
  case (1 n)
  show ?case
  proof (cases "n < 10")
    case True
    then have "decimal n = [digit_char n]" by (subst decimal.simps) simp
    with True show ?thesis using digit_char_not_minus[of n] by simp
  next
    case False
    then have eq: "decimal n = decimal (n div 10) @ [digit_char (n mod 10)]"
      by (subst decimal.simps) simp
    have "n mod 10 < 10" by simp
    then have "digit_char (n mod 10) \<noteq> CHR ''-''" by (rule digit_char_not_minus)
    moreover have "CHR ''-'' \<notin> set (decimal (n div 10))" using 1 False by simp
    ultimately show ?thesis unfolding eq by simp
  qed
qed

lemma Sprintf_d_no_minus: "0 \<le> n \<Longrightarrow> CHR ''-'' \<notin> set (Sprintf_d n)"
  by (simp add: Sprintf_d_def decimal_no_minus)

lemma EncodeToString_hextable: "set (EncodeToString bs) \<subseteq> set hextable"
proof -
  have len: "length hextable = 16" by (simp add: hextable_def)
  have hi: "hextable ! (unat b div 16) \<in> set hextable" for b :: "8 word"
  proof -
    have "unat b < 2 ^ 8" using unsigned_less[of b] by simp
    then have "unat b div 16 < length hextable" unfolding len by simp
    then show ?thesis by (rule nth_mem)
  qed
  have lo: "hextable ! (unat b mod 16) \<in> set hextable" for b :: "8 word"
  proof -
    have "unat b mod 16 < length hextable" unfolding len by simp
    then show ?thesis by (rule nth_mem)
  qed
  show ?thesis
    using hi lo by (induction bs) (auto simp: EncodeToString_def)
qed

lemma EncodeToString_no_minus: "CHR ''-'' \<notin> set (EncodeToString bs)"
proof -
  have "CHR ''-'' \<notin> set hextable" by (simp add: hextable_def)
  then show ?thesis using EncodeToString_hextable[of bs] by blast
qed

subsection \<open>Issuing and validating a CAS ticket\<close>

lemma GetCASAuthorize_issues:
  assumes "GetCASAuthorize c data userId username now db = ((url, name, None), db1)"
  shows "\<exists>site. GetCASSite c (CASAuthorize.Service data) = Inr site
           \<and> GetCASAuthorize_st c username now \<notin> set (map SsoCASTicket.Ticket (sso_cas_ticket db))
           \<and> db1 = db\<lparr>sso_cas_ticket := sso_cas_ticket db @
                 [\<lparr>SsoCASTicket.ID = Suc (length (sso_cas_ticket db)),
                   SsoCASTicket.Ticket = GetCASAuthorize_st c username now,
                   SsoCASTicket.Service = CallbackUrl site,
                   SsoCASTicket.UserID = userId,
                   SsoCASTicket.ExpiresAt = now + 10,
                   SsoCASTicket.ConsumedAt = None\<rparr>]\<rparr>
           \<and> suffix (''ticket='' @ GetCASAuthorize_st c username now) url"
  using assms
  by (auto simp: GetCASAuthorize_def GetCASAuthorize_st_def Let_def CreateAuthorizeTicket_def
        suffix_def split: sum.splits if_splits)

lemma hyphen_ticket_parts:
  assumes "CHR ''-'' \<in> set username"
  shows "length (Split (GetCASAuthorize_st c username now) CHR ''-'') \<noteq> 4"
proof -
  have "filter (\<lambda>x. x = CHR ''-'') username \<noteq> []"
    using assms by (simp add: filter_empty_conv)
  then have "1 \<le> length (filter (\<lambda>x. x = CHR ''-'') username)"
    by (cases "filter (\<lambda>x. x = CHR ''-'') username") auto
  then have "4 \<le> length (filter (\<lambda>x. x = CHR ''-'') (GetCASAuthorize_st c username now))"
    by (simp add: GetCASAuthorize_st_def Let_def)
  then show ?thesis by (simp add: Split_length)
qed

lemma plain_ticket_parts:
  assumes "CHR ''-'' \<notin> set username" "0 \<le> now"
  shows "Split (GetCASAuthorize_st c username now) CHR ''-'' =
           [''ST'', Sprintf_d now, username,
            EncodeToString (hmac_sha256 c (secret c) (''ST-'' @ Sprintf_d now @ ''-'' @ username))]"
proof -
  let ?sig = "EncodeToString (hmac_sha256 c (secret c) (''ST-'' @ Sprintf_d now @ ''-'' @ username))"
  have d: "CHR ''-'' \<notin> set (Sprintf_d now)" using assms(2) by (rule Sprintf_d_no_minus)
  have s: "CHR ''-'' \<notin> set ?sig" by (rule EncodeToString_no_minus)
  have "GetCASAuthorize_st c username now =
          ''ST'' @ CHR ''-'' # (Sprintf_d now @ CHR ''-'' # (username @ CHR ''-'' # ?sig))"
    by (simp add: GetCASAuthorize_st_def Let_def)
  moreover have "Split (''ST'' @ CHR ''-'' # (Sprintf_d now @ CHR ''-'' # (username @ CHR ''-'' # ?sig)))
                   CHR ''-'' = [''ST'', Sprintf_d now, username, ?sig]"
  proof -
    have 1: "Split (username @ CHR ''-'' # ?sig) CHR ''-'' = [username, ?sig]"
      using Split_append[OF assms(1), of ?sig] Split_no_sep[OF s] by simp
    have 2: "Split (Sprintf_d now @ CHR ''-'' # (username @ CHR ''-'' # ?sig)) CHR ''-'' =
               [Sprintf_d now, username, ?sig]"
      using Split_append[OF d, of "username @ CHR ''-'' # ?sig"] 1 by simp
    have "CHR ''-'' \<notin> set ''ST''" by simp
    from Split_append[OF this, of "Sprintf_d now @ CHR ''-'' # (username @ CHR ''-'' # ?sig)"] 2
    show ?thesis by simp
  qed
  ultimately show ?thesis by simp
qed

text \<open>
  Claim C3, where the code breaks it. A ticket issued for a username that contains a
  dash has more than four parts, so its validation ends with the invalid-ticket error
  whenever it is presented, also at once after it was issued, for a registered service.
\<close>

theorem CAS_ticket_hyphen_username_rejected:
  "CHR ''-'' \<in> set username \<and> GetCASSite c service = Inr site \<longrightarrow>
     fst (ServiceValidate c
            \<lparr>CASServiceValidate.Service = service,
             CASServiceValidate.Ticket = GetCASAuthorize_st c username now\<rparr> now' db) =
       Inl (ErrorsNew ''ticket string is invalid'')"
proof
  assume a: "CHR ''-'' \<in> set username \<and> GetCASSite c service = Inr site"
  then have p: "length (Split (GetCASAuthorize_st c username now) CHR ''-'') \<noteq> 4"
    by (simp add: hyphen_ticket_parts)
  show "fst (ServiceValidate c
            \<lparr>CASServiceValidate.Service = service,
             CASServiceValidate.Ticket = GetCASAuthorize_st c username now\<rparr> now' db) =
       Inl (ErrorsNew ''ticket string is invalid'')"
    using a p by (simp add: ServiceValidate_def Let_def split: prod.splits sum.splits)
qed
lemma Split_single: "Split s sep = [p] \<Longrightarrow> s = p \<and> sep \<notin> set p"
proof (induction s arbitrary: p)
  case Nil
  then show ?case by simp
next
  case (Cons c cs)
  show ?case
  proof (cases "c = sep")
    case True
    with Cons.prems show ?thesis using Split_not_Nil[of cs sep] by simp
  next
    case False
    obtain q qs where q: "Split cs sep = q # qs"
      using Split_not_Nil[of cs sep] by (cases "Split cs sep") auto
    with False Cons.prems have "p = c # q" "qs = []" by auto
    with q Cons.IH[of q] False show ?thesis by simp
  qed
qed

lemma Split_Cons_decomp:
  "Split s sep = p # q # ps \<Longrightarrow>
     \<exists>rest. s = p @ sep # rest \<and> Split rest sep = q # ps \<and> sep \<notin> set p"
proof (induction s arbitrary: p)
  case Nil
  then show ?case by simp
next
  case (Cons c cs)
  show ?case
  proof (cases "c = sep")
    case True
    with Cons.prems show ?thesis by auto
  next
    case False
    obtain r rs where r: "Split cs sep = r # rs"
      using Split_not_Nil[of cs sep] by (cases "Split cs sep") auto
    with False Cons.prems have "p = c # r" "rs = q # ps" by auto
    with r Cons.IH[of r] False show ?thesis by auto
  qed
qed

lemma Split_four:
  assumes "Split s sep = [p0, p1, p2, p3]"
  shows "s = (p0 @ sep # p1 @ sep # p2) @ sep # p3 \<and> sep \<notin> set p3"
proof -
  from Split_Cons_decomp[OF assms] obtain r1 where
    1: "s = p0 @ sep # r1" "Split r1 sep = [p1, p2, p3]" by blast
  from Split_Cons_decomp[OF 1(2)] obtain r2 where
    2: "r1 = p1 @ sep # r2" "Split r2 sep = [p2, p3]" by blast
  from Split_Cons_decomp[OF 2(2)] obtain r3 where
    3: "r2 = p2 @ sep # r3" "Split r3 sep = [p3]" by blast
  from Split_single[OF 3(2)] have "r3 = p3" "sep \<notin> set p3" by auto
  with 1 2 3 show ?thesis by simp
qed

lemma last_separator_unique:
  assumes "sep \<notin> set y" "sep \<notin> set y'" "x @ sep # y = x' @ sep # y'"
  shows "x = x' \<and> y = y'"
proof -
  have t: "takeWhile (\<lambda>c. c \<noteq> sep) (rev b @ sep # rev a) = rev b" if "sep \<notin> set b" for a b
    using that by (induction b rule: rev_induct) auto
  have "rev (x @ sep # y) = rev (x' @ sep # y')" using assms(3) by simp
  then have "rev y @ sep # rev x = rev y' @ sep # rev x'" by simp
  then have "takeWhile (\<lambda>c. c \<noteq> sep) (rev y @ sep # rev x) =
             takeWhile (\<lambda>c. c \<noteq> sep) (rev y' @ sep # rev x')" by simp
  then have "rev y = rev y'" using t[OF assms(1)] t[OF assms(2)] by simp
  then have "y = y'" by simp
  with assms(3) show ?thesis by simp
qed
lemma GetAuthorizeTicket_result:
  assumes "GetAuthorizeTicket st now db = (Inr t, db')"
  shows "\<exists>r\<in>set (sso_cas_ticket db). SsoCASTicket.Ticket r = st
           \<and> t = r\<lparr>SsoCASTicket.ConsumedAt := Some now\<rparr>"
proof -
  let ?P = "\<lambda>r. SsoCASTicket.Ticket r = st \<and> SsoCASTicket.ExpiresAt r > now
                       \<and> SsoCASTicket.ConsumedAt r = None"
  obtain r where fr: "First ?P (sso_cas_ticket db) = Inr r"
    using assms by (cases "First ?P (sso_cas_ticket db)") (auto simp: GetAuthorizeTicket_def)
  then have "r \<in> set (sso_cas_ticket db)" "SsoCASTicket.Ticket r = st"
    using First_Inr[OF fr] by auto
  moreover have "t = r\<lparr>SsoCASTicket.ConsumedAt := Some now\<rparr>"
    using assms fr by (auto simp: GetAuthorizeTicket_def split: sum.splits)
  ultimately show ?thesis by blast
qed

text \<open>
  For a username without a dash and a clock not before the epoch the round trip holds:
  the ticket just issued, presented for a registered service before its ten seconds
  are over, is accepted and names the user it was issued to.
\<close>

lemma CAS_round_trip:
  assumes ok: "store_ok db"
    and issue: "GetCASAuthorize c data userId username now db = ((url, name, None), db1)"
    and plain: "CHR ''-'' \<notin> set username" "0 \<le> now"
    and site: "GetCASSite c service = Inr site'"
    and time: "now' < now + 10"
    and user: "GetUserInfo c userId = Inr user"
  shows "\<exists>resp db2.
           ServiceValidate c
             \<lparr>CASServiceValidate.Service = service,
              CASServiceValidate.Ticket = GetCASAuthorize_st c username now\<rparr> now' db1 =
             (Inr resp, db2)
           \<and> User (CASServiceResponse.AuthenticationSuccess resp) = UserInfoWithMenu.Username user"
proof -
  let ?st = "GetCASAuthorize_st c username now"
  from GetCASAuthorize_issues[OF issue] obtain site where
    all: "GetCASSite c (CASAuthorize.Service data) = Inr site
           \<and> ?st \<notin> set (map SsoCASTicket.Ticket (sso_cas_ticket db))
           \<and> db1 = db\<lparr>sso_cas_ticket := sso_cas_ticket db @
                 [\<lparr>SsoCASTicket.ID = Suc (length (sso_cas_ticket db)),
                   SsoCASTicket.Ticket = ?st,
                   SsoCASTicket.Service = CallbackUrl site,
                   SsoCASTicket.UserID = userId,
                   SsoCASTicket.ExpiresAt = now + 10,
                   SsoCASTicket.ConsumedAt = None\<rparr>]\<rparr>
           \<and> suffix (''ticket='' @ ?st) url" ..
  note fresh = all[THEN conjunct2, THEN conjunct1]
  note db1 = all[THEN conjunct2, THEN conjunct2, THEN conjunct1]
  have ids: "list_all (\<lambda>r. SsoCASTicket.ID r \<noteq> 0) (sso_cas_ticket db1)"
    using ok by (simp add: db1 store_ok_def)
  have "\<exists>r\<in>set (sso_cas_ticket db1). SsoCASTicket.Ticket r = ?st
            \<and> now' < SsoCASTicket.ExpiresAt r \<and> SsoCASTicket.ConsumedAt r = None"
    using time by (simp add: db1)
  then obtain t db2 where look: "GetAuthorizeTicket ?st now' db1 = (Inr t, db2)"
    using GetAuthorizeTicket_succeeds_iff[OF ids, of ?st now'] by blast
  from GetAuthorizeTicket_result[OF look] obtain r where
    r: "r \<in> set (sso_cas_ticket db1)" "SsoCASTicket.Ticket r = ?st"
       "t = r\<lparr>SsoCASTicket.ConsumedAt := Some now'\<rparr>" by blast
  have "r \<notin> set (sso_cas_ticket db)"
    using r(2) fresh by (auto simp: image_iff)
  then have "SsoCASTicket.UserID r = userId"
    using r(1) by (auto simp: db1)
  then have uid: "SsoCASTicket.UserID t = userId" using r(3) by simp
  have parts: "Split ?st CHR ''-'' =
           [''ST'', Sprintf_d now, username,
            EncodeToString (hmac_sha256 c (secret c) (''ST-'' @ Sprintf_d now @ ''-'' @ username))]"
    using plain by (rule plain_ticket_parts)
  show ?thesis
    using site look uid user
    by (simp add: ServiceValidate_def parts Let_def)
qed

text \<open>
  A presented ticket is accepted only if a live, unconsumed row carries it and its fourth
  part is the signature of its first three.
\<close>

lemma ServiceValidate_accepts_only:
  assumes "ServiceValidate c param now db = (Inr resp, db')"
  shows "(\<exists>r\<in>set (sso_cas_ticket db).
            SsoCASTicket.Ticket r = CASServiceValidate.Ticket param
            \<and> now < SsoCASTicket.ExpiresAt r \<and> SsoCASTicket.ConsumedAt r = None)
         \<and> (\<exists>p0 p1 p2. Split (CASServiceValidate.Ticket param) CHR ''-'' =
               [p0, p1, p2,
                EncodeToString (hmac_sha256 c (secret c) (p0 @ ''-'' @ p1 @ ''-'' @ p2))])"
proof -
  let ?st = "CASServiceValidate.Ticket param"
  let ?P = "\<lambda>r. SsoCASTicket.Ticket r = ?st \<and> SsoCASTicket.ExpiresAt r > now
                       \<and> SsoCASTicket.ConsumedAt r = None"
  obtain t db1 where look: "GetAuthorizeTicket ?st now db = (Inr t, db1)"
    and len: "length (Split ?st CHR ''-'') = 4"
    and sig: "EncodeToString (hmac_sha256 c (secret c)
                (Split ?st CHR ''-'' ! 0 @ ''-'' @ Split ?st CHR ''-'' ! 1 @ ''-''
                   @ Split ?st CHR ''-'' ! 2)) = Split ?st CHR ''-'' ! 3"
    using assms
    by (auto simp: ServiceValidate_def Let_def split: sum.splits prod.splits if_splits)
  obtain r where "First ?P (sso_cas_ticket db) = Inr r"
    using look by (cases "First ?P (sso_cas_ticket db)") (auto simp: GetAuthorizeTicket_def)
  then have "r \<in> set (sso_cas_ticket db) \<and> ?P r" by (rule First_Inr)
  then have live: "\<exists>r\<in>set (sso_cas_ticket db). ?P r" by blast
  from len obtain p0 p1 p2 p3 where ps: "Split ?st CHR ''-'' = [p0, p1, p2, p3]"
    by (auto simp: length_Suc_conv numeral_eq_Suc)
  with sig have "p3 = EncodeToString (hmac_sha256 c (secret c) (p0 @ ''-'' @ p1 @ ''-'' @ p2))"
    by simp
  with ps live show ?thesis by auto
qed

text \<open>
  Tampering: a ticket made of a changed body and the signature of the original body is
  rejected with the invalid-ticket error for a registered service, unless the changed
  body has the same HMAC digits as the original one.
\<close>

lemma tampered_body_rejected:
  assumes site: "GetCASSite c service = Inr site"
    and sig: "signature = EncodeToString (hmac_sha256 c (secret c) body)"
    and inj: "EncodeToString (hmac_sha256 c (secret c) body') \<noteq> signature"
  shows "fst (ServiceValidate c
            \<lparr>CASServiceValidate.Service = service,
             CASServiceValidate.Ticket = body' @ ''-'' @ signature\<rparr> now db) =
           Inl (ErrorsNew ''ticket string is invalid'')"
proof -
  let ?param = "\<lparr>CASServiceValidate.Service = service,
             CASServiceValidate.Ticket = body' @ ''-'' @ signature\<rparr>"
  obtain res db' where run: "ServiceValidate c ?param now db = (res, db')"
    by (cases "ServiceValidate c ?param now db")
  show ?thesis
  proof (cases res)
    case (Inr resp)
    with run ServiceValidate_accepts_only[of c ?param now db resp db'] obtain p0 p1 p2 where
      ps: "Split (body' @ ''-'' @ signature) CHR ''-'' =
             [p0, p1, p2, EncodeToString (hmac_sha256 c (secret c) (p0 @ ''-'' @ p1 @ ''-'' @ p2))]"
      by auto
    let ?p3 = "EncodeToString (hmac_sha256 c (secret c) (p0 @ ''-'' @ p1 @ ''-'' @ p2))"
    from Split_four[OF ps] have eq: "body' @ CHR ''-'' # signature =
        (p0 @ CHR ''-'' # p1 @ CHR ''-'' # p2) @ CHR ''-'' # ?p3" by simp
    have "CHR ''-'' \<notin> set signature" unfolding sig by (rule EncodeToString_no_minus)
    moreover have "CHR ''-'' \<notin> set ?p3" by (rule EncodeToString_no_minus)
    ultimately have "body' = p0 @ CHR ''-'' # p1 @ CHR ''-'' # p2" "signature = ?p3"
      using last_separator_unique[OF _ _ eq] by auto
    then have "signature = EncodeToString (hmac_sha256 c (secret c) body')" by simp
    with inj show ?thesis by simp
  next
    case (Inl e)
    have "\<not> (\<exists>err. GetCASSite c (CASServiceValidate.Service ?param) = Inl err)"
      using site by simp
    moreover have "\<not> (\<exists>t. fst (GetAuthorizeTicket (CASServiceValidate.Ticket ?param) now db) = Inr t
             \<and> GetUserInfo c (SsoCASTicket.UserID t) = Inl e
             \<and> e \<noteq> ErrorsNew ''ticket string is invalid'')"
    proof
      assume "\<exists>t. fst (GetAuthorizeTicket (CASServiceValidate.Ticket ?param) now db) = Inr t
             \<and> GetUserInfo c (SsoCASTicket.UserID t) = Inl e
             \<and> e \<noteq> ErrorsNew ''ticket string is invalid''"
      then obtain t where t: "fst (GetAuthorizeTicket (body' @ ''-'' @ signature) now db) = Inr t"
        "GetUserInfo c (SsoCASTicket.UserID t) = Inl e" "e \<noteq> ErrorsNew ''ticket string is invalid''"
        by auto
      obtain db1 where look: "GetAuthorizeTicket (body' @ ''-'' @ signature) now db = (Inr t, db1)"
        using t(1) by (cases "GetAuthorizeTicket (body' @ ''-'' @ signature) now db") auto
      have len: "length (Split (body' @ ''-'' @ signature) CHR ''-'') = 4"
        using run Inl site look t(3)
        by (auto simp: ServiceValidate_def Let_def split: if_splits sum.splits)
      then obtain p0 p1 p2 p3 where
        ps: "Split (body' @ ''-'' @ signature) CHR ''-'' = [p0, p1, p2, p3]"
        by (auto simp: length_Suc_conv numeral_eq_Suc)
      have ok: "EncodeToString (hmac_sha256 c (secret c) (p0 @ ''-'' @ p1 @ ''-'' @ p2)) = p3"
        using run Inl site look t(3) ps
        by (auto simp: ServiceValidate_def Let_def split: if_splits sum.splits)
      from Split_four[OF ps] have eq: "body' @ CHR ''-'' # signature =
          (p0 @ CHR ''-'' # p1 @ CHR ''-'' # p2) @ CHR ''-'' # p3"
        and n3: "CHR ''-'' \<notin> set p3" by simp_all
      have "CHR ''-'' \<notin> set signature" unfolding sig by (rule EncodeToString_no_minus)
      then have "body' = p0 @ CHR ''-'' # p1 @ CHR ''-'' # p2" "signature = p3"
        using last_separator_unique[OF _ n3 eq] by auto
      with ok inj show False by simp
    qed
    ultimately show ?thesis
      using run Inl site
      by (auto simp: ServiceValidate_def Let_def split: if_splits sum.splits prod.splits)
  qed
qed
lemma example_hyphen_ticket:
  "GetCASAuthorize_st example_collaborators ''jean-luc'' 100 = ''ST-100-jean-luc-10''"
proof -
  have "EncodeToString [16] = ''10''" by (simp add: EncodeToString_def hextable_def)
  then show ?thesis
    by (simp add: GetCASAuthorize_st_def Let_def decimal_100 example_collaborators_def)
qed

lemma example_hyphen_issue:
  "GetCASAuthorize example_collaborators \<lparr>CASAuthorize.Service = ''demo''\<rparr> 7 ''jean-luc'' 100
     empty_database =
   ((''https://app/cb?ticket=ST-100-jean-luc-10'', ''demo'', None),
    empty_database\<lparr>sso_cas_ticket :=
      [\<lparr>SsoCASTicket.ID = 1, SsoCASTicket.Ticket = ''ST-100-jean-luc-10'',
        SsoCASTicket.Service = ''https://app/cb'', SsoCASTicket.UserID = 7,
        SsoCASTicket.ExpiresAt = 110, SsoCASTicket.ConsumedAt = None\<rparr>]\<rparr>)"
proof -
  have s: "GetCASSite example_collaborators ''demo'' = Inr example_site"
    by (simp add: example_collaborators_def example_lookup_def)
  have st: "''ST-'' @ Sprintf_d 100 @ ''-'' @ ''jean-luc'' @ ''-'' @
      EncodeToString (hmac_sha256 example_collaborators (secret example_collaborators)
        (''ST-'' @ Sprintf_d 100 @ ''-'' @ ''jean-luc'')) = ''ST-100-jean-luc-10''"
    using example_hyphen_ticket by (simp add: GetCASAuthorize_st_def Let_def)
  show ?thesis
    using s st
    by (simp add: GetCASAuthorize_def Let_def example_site_def CreateAuthorizeTicket_def
          empty_database_def example_callback_no_query)
qed

theorem CAS_ticket_hyphen_username_rejected_witness:
  "CHR ''-'' \<in> set ''jean-luc''
   \<and> GetCASSite example_collaborators ''demo'' = Inr example_site
   \<and> fst (GetCASAuthorize example_collaborators \<lparr>CASAuthorize.Service = ''demo''\<rparr> 7
        ''jean-luc'' 100 empty_database) =
       (''https://app/cb?ticket=ST-100-jean-luc-10'', ''demo'', None)
   \<and> fst (ServiceValidate example_collaborators
        \<lparr>CASServiceValidate.Service = ''demo'',
         CASServiceValidate.Ticket = ''ST-100-jean-luc-10''\<rparr> 100
        (snd (GetCASAuthorize example_collaborators \<lparr>CASAuthorize.Service = ''demo''\<rparr> 7
               ''jean-luc'' 100 empty_database))) =
       Inl (ErrorsNew ''ticket string is invalid'')"
proof -
  have h: "CHR ''-'' \<in> set ''jean-luc''" by simp
  have s: "GetCASSite example_collaborators ''demo'' = Inr example_site"
    by (simp add: example_collaborators_def example_lookup_def)
  show ?thesis
    using h s example_hyphen_issue example_hyphen_ticket
      CAS_ticket_hyphen_username_rejected[of "''jean-luc''" example_collaborators "''demo''"
        example_site 100 100
        "snd (GetCASAuthorize example_collaborators \<lparr>CASAuthorize.Service = ''demo''\<rparr> 7
               ''jean-luc'' 100 empty_database)"]
    by simp
qed

text \<open>The same service and clock accept the ticket of a user named without a dash.\<close>

lemma example_round_trip:
  "\<exists>resp db2.
     ServiceValidate example_collaborators
       \<lparr>CASServiceValidate.Service = ''demo'',
        CASServiceValidate.Ticket = GetCASAuthorize_st example_collaborators ''carol'' 100\<rparr>
       109
       (snd (GetCASAuthorize example_collaborators \<lparr>CASAuthorize.Service = ''demo''\<rparr> 7
               ''carol'' 100 empty_database)) = (Inr resp, db2)
     \<and> User (CASServiceResponse.AuthenticationSuccess resp) = ''carol''"
proof -
  let ?c = example_collaborators
  have s: "GetCASSite ?c ''demo'' = Inr example_site"
    by (simp add: example_collaborators_def example_lookup_def)
  have u: "GetUserInfo ?c 7 = Inr example_user"
    by (simp add: example_collaborators_def)
  obtain url name db1 where
    i: "GetCASAuthorize ?c \<lparr>CASAuthorize.Service = ''demo''\<rparr> 7 ''carol'' 100 empty_database =
          ((url, name, None), db1)"
    using s
    by (simp add: GetCASAuthorize_def Let_def example_site_def CreateAuthorizeTicket_def
          empty_database_def)
  have "\<exists>resp db2.
     ServiceValidate ?c
       \<lparr>CASServiceValidate.Service = ''demo'',
        CASServiceValidate.Ticket = GetCASAuthorize_st ?c ''carol'' 100\<rparr> 109 db1 = (Inr resp, db2)
     \<and> User (CASServiceResponse.AuthenticationSuccess resp) = UserInfoWithMenu.Username example_user"
    by (rule CAS_round_trip[OF store_ok_empty i _ _ s _ u]) simp_all
  then show ?thesis using i by (simp add: example_user_def)
qed

subsection \<open>Concurrent lookups of one code\<close>

text \<open>A call scheduled alone, for its two statements, is \<open>GetAuthorizeCode\<close>.\<close>

lemma run_schedule_alone:
  "run_schedule [0, 0] [Selecting code now] db =
     ([Finished (fst (GetAuthorizeCode code now db))], snd (GetAuthorizeCode code now db))"
  by (simp add: GetAuthorizeCode_def split: sum.splits)

text \<open>Two calls that run one after the other: the second fails, as in claim C1.\<close>

lemma run_schedule_sequential:
  "run_schedule [0, 0, 1, 1] [Selecting ''c1'' 5, Selecting ''c1'' 6] example_database =
     ([Finished (Inr example_oauth_ticket), Finished (Inl ErrRecordNotFound)],
      example_database\<lparr>sso_oauth_ticket := [example_oauth_ticket]\<rparr>)"
  by (simp add: First_def UpdateConsumedAtCode_def example_database_def
        example_oauth_ticket_def)

lemma example_interleaving:
  "run_schedule [0, 1, 0, 1] [Selecting ''c1'' 5, Selecting ''c1'' 6] example_database =
     ([Finished (Inr example_oauth_ticket),
       Finished (Inr (example_oauth_ticket\<lparr>SsoOAuthTicket.ConsumedAt := Some 6\<rparr>))],
      example_database\<lparr>sso_oauth_ticket :=
        [example_oauth_ticket\<lparr>SsoOAuthTicket.ConsumedAt := Some 6\<rparr>]\<rparr>)"
  by (simp add: First_def UpdateConsumedAtCode_def example_database_def
        example_oauth_ticket_def)

text \<open>
  Claim C4, where the code breaks it. \<open>GetAuthorizeCode\<close> selects the row and stamps it
  in two separate statements, outside a transaction. For every live, unconsumed code in
  a well-formed store, when two calls for that code both select before either updates,
  both find the row unconsumed, both stamp it and both return the ticket: two callers
  observe success for one ticket value.
\<close>

theorem concurrent_lookups_both_succeed:
  assumes "store_ok db"
    and "r \<in> set (sso_oauth_ticket db)"
    and "SsoOAuthTicket.Code r = code" "SsoOAuthTicket.ConsumedAt r = None"
    and "now1 < SsoOAuthTicket.ExpiresAt r" "now2 < SsoOAuthTicket.ExpiresAt r"
  shows "list_all succeeded
           (fst (run_schedule [0, 1, 0, 1] [Selecting code now1, Selecting code now2] db))"
proof -
  let ?P = "\<lambda>now r. SsoOAuthTicket.Code r = code \<and> SsoOAuthTicket.ExpiresAt r > now
                       \<and> SsoOAuthTicket.ConsumedAt r = None"
  have ids: "\<And>x. x \<in> set (sso_oauth_ticket db) \<Longrightarrow> SsoOAuthTicket.ID x \<noteq> 0"
    using assms(1) by (auto simp: store_ok_def list_all_iff)
  have found: "\<exists>x. First (?P now) (sso_oauth_ticket db) = Inr x \<and> SsoOAuthTicket.ID x \<noteq> 0"
    if "now < SsoOAuthTicket.ExpiresAt r" for now
  proof (cases "First (?P now) (sso_oauth_ticket db)")
    case (Inl e)
    then have "\<not> ?P now r" using assms(2) by (simp add: First_Inl)
    with that assms(3,4) show ?thesis by simp
  next
    case (Inr x)
    then have "x \<in> set (sso_oauth_ticket db)" using First_Inr[OF Inr] by simp
    with Inr ids show ?thesis by simp
  qed
  from found[OF assms(5)] obtain x1 where
    1: "First (?P now1) (sso_oauth_ticket db) = Inr x1" "SsoOAuthTicket.ID x1 \<noteq> 0" by blast
  from found[OF assms(6)] obtain x2 where
    2: "First (?P now2) (sso_oauth_ticket db) = Inr x2" "SsoOAuthTicket.ID x2 \<noteq> 0" by blast
  show ?thesis
    using 1 2 by (simp add: UpdateConsumedAtCode_def succeeded_def)
qed

theorem concurrent_lookups_both_succeed_witness:
  "store_ok example_database
   \<and> run_schedule [0, 1, 0, 1] [Selecting ''c1'' 5, Selecting ''c1'' 6] example_database =
     ([Finished (Inr example_oauth_ticket),
       Finished (Inr (example_oauth_ticket\<lparr>SsoOAuthTicket.ConsumedAt := Some 6\<rparr>))],
      example_database\<lparr>sso_oauth_ticket :=
        [example_oauth_ticket\<lparr>SsoOAuthTicket.ConsumedAt := Some 6\<rparr>]\<rparr>)
   \<and> list_all succeeded
        (fst (run_schedule [0, 1, 0, 1] [Selecting ''c1'' 5, Selecting ''c1'' 6]
                example_database))"
proof -
  have ok: "store_ok example_database"
    by (simp add: store_ok_def example_database_def)
  have "list_all succeeded
        (fst (run_schedule [0, 1, 0, 1] [Selecting ''c1'' 5, Selecting ''c1'' 6]
                example_database))"
    by (rule concurrent_lookups_both_succeed[OF ok,
          of "example_oauth_ticket\<lparr>SsoOAuthTicket.ConsumedAt := None\<rparr>"])
       (simp_all add: example_database_def example_oauth_ticket_def)
  with ok example_interleaving show ?thesis by simp
qed

end
